theory Spec2Isabelle
  imports Main
begin

section \<open>Python values used by bot.py\<close>

text \<open>
  A Python \<^verbatim>\<open>str\<close> is a sequence of Unicode code points, so it is modelled as a list
  of code points. ASCII literals of the source are written \<open>ascii ''...''\<close>; literals with
  Cyrillic letters or emoji are written as explicit code point lists.
\<close>

type_synonym pystr = "nat list"

definition ascii :: "string \<Rightarrow> pystr" where
  "ascii s = map of_char s"

datatype pyerror = ValueError | TypeError | AttributeError | RuntimeError

subsection \<open>Character classes of the interpreter (Unicode 14 tables of CPython 3.11)\<close>

definition in_ranges :: "(nat \<times> nat) list \<Rightarrow> nat \<Rightarrow> bool" where
  "in_ranges rs c = list_ex (\<lambda>(lo, hi). lo \<le> c \<and> c \<le> hi) rs"

text \<open>\<^verbatim>\<open>str.isspace\<close> on one character; \<^verbatim>\<open>str.strip()\<close> removes these.\<close>

definition space_ranges :: "(nat \<times> nat) list" where
  "space_ranges = [(9, 13), (28, 32), (133, 133), (160, 160), (5760, 5760), (8192, 8202),
     (8232, 8233), (8239, 8239), (8287, 8287), (12288, 12288)]"

definition py_isspace :: "nat \<Rightarrow> bool" where
  "py_isspace c = in_ranges space_ranges c"

text \<open>
  \<^verbatim>\<open>str.isdecimal\<close> on one character (general category Nd). Every range is a run of
  digits 0..9 (the last but four holds five such runs), so the value of a decimal digit
  is its offset in the range modulo 10.
\<close>

definition decimal_ranges :: "(nat \<times> nat) list" where
  "decimal_ranges = [(48, 57), (1632, 1641), (1776, 1785), (1984, 1993), (2406, 2415),
     (2534, 2543), (2662, 2671), (2790, 2799), (2918, 2927), (3046, 3055), (3174, 3183),
     (3302, 3311), (3430, 3439), (3558, 3567), (3664, 3673), (3792, 3801), (3872, 3881),
     (4160, 4169), (4240, 4249), (6112, 6121), (6160, 6169), (6470, 6479), (6608, 6617),
     (6784, 6793), (6800, 6809), (6992, 7001), (7088, 7097), (7232, 7241), (7248, 7257),
     (42528, 42537), (43216, 43225), (43264, 43273), (43472, 43481), (43504, 43513),
     (43600, 43609), (44016, 44025), (65296, 65305), (66720, 66729), (68912, 68921),
     (69734, 69743), (69872, 69881), (69942, 69951), (70096, 70105), (70384, 70393),
     (70736, 70745), (70864, 70873), (71248, 71257), (71360, 71369), (71472, 71481),
     (71904, 71913), (72016, 72025), (72784, 72793), (73040, 73049), (73120, 73129),
     (92768, 92777), (92864, 92873), (93008, 93017), (120782, 120831), (123200, 123209),
     (123632, 123641), (125264, 125273), (130032, 130041)]"

definition py_isdecimal :: "nat \<Rightarrow> bool" where
  "py_isdecimal c = in_ranges decimal_ranges c"

definition decimal_value :: "nat \<Rightarrow> nat" where
  "decimal_value c =
     (case find (\<lambda>(lo, hi). lo \<le> c \<and> c \<le> hi) decimal_ranges of
        Some (lo, hi) \<Rightarrow> (c - lo) mod 10
      | None \<Rightarrow> 0)"

text \<open>
  \<^verbatim>\<open>str.isdigit\<close> on one character: the decimal digits and the characters of numeric
  type Digit that are not decimal (superscripts, subscripts, circled digits, ...).
\<close>

definition digit_only_ranges :: "(nat \<times> nat) list" where
  "digit_only_ranges = [(178, 179), (185, 185), (4969, 4977), (6618, 6618), (8304, 8304),
     (8308, 8313), (8320, 8329), (9312, 9320), (9332, 9340), (9352, 9360), (9450, 9450),
     (9461, 9469), (9471, 9471), (10102, 10110), (10112, 10120), (10122, 10130),
     (68160, 68163), (69216, 69224), (69714, 69722), (127232, 127242)]"

definition py_isdigit :: "nat \<Rightarrow> bool" where
  "py_isdigit c = (py_isdecimal c \<or> in_ranges digit_only_ranges c)"

subsection \<open>String methods\<close>

text \<open>\<^verbatim>\<open>s.strip()\<close>\<close>

definition str_strip :: "pystr \<Rightarrow> pystr" where
  "str_strip s = rev (dropWhile py_isspace (rev (dropWhile py_isspace s)))"

text \<open>\<^verbatim>\<open>s.isdigit()\<close>: false on the empty string.\<close>

definition str_isdigit :: "pystr \<Rightarrow> bool" where
  "str_isdigit s = (s \<noteq> [] \<and> list_all py_isdigit s)"

text \<open>\<^verbatim>\<open>"".join(ch for ch in s if ch.isdigit())\<close>\<close>

definition only_digits :: "pystr \<Rightarrow> pystr" where
  "only_digits s = filter py_isdigit s"

text \<open>\<^verbatim>\<open>sep.join(parts)\<close>\<close>

fun str_join :: "pystr \<Rightarrow> pystr list \<Rightarrow> pystr" where
  "str_join sep [] = []"
| "str_join sep [x] = x"
| "str_join sep (x # y # ys) = x @ sep @ str_join sep (y # ys)"

text \<open>\<^verbatim>\<open>s.replace(c, r)\<close> for a pattern \<open>c\<close> of one character.\<close>

definition str_replace :: "nat \<Rightarrow> pystr \<Rightarrow> pystr \<Rightarrow> pystr" where
  "str_replace c r s = concat (map (\<lambda>x. if x = c then r else [x]) s)"

text \<open>\<^verbatim>\<open>sub in s\<close>\<close>

fun str_contains :: "pystr \<Rightarrow> pystr \<Rightarrow> bool" where
  "str_contains sub [] = (sub = [])"
| "str_contains sub (x # xs) = (take (length sub) (x # xs) = sub \<or> str_contains sub xs)"

subsection \<open>Integers and strings\<close>

text \<open>\<^verbatim>\<open>str(n)\<close> for an integer.\<close>

fun nat_digits :: "nat \<Rightarrow> pystr" where
  "nat_digits n = (if n < 10 then [48 + n] else nat_digits (n div 10) @ [48 + n mod 10])"

declare nat_digits.simps [simp del]

definition str_of_int :: "int \<Rightarrow> pystr" where
  "str_of_int i = (if i < 0 then 45 # nat_digits (nat (- i)) else nat_digits (nat i))"

text \<open>
  \<^verbatim>\<open>int(s)\<close> for a string, base 10. The interpreter first maps every non-ASCII
  whitespace character to a blank and every non-ASCII decimal digit to its ASCII digit,
  then skips blanks (ASCII whitespace 9..13 and 32) at both ends, reads an optional sign
  and then digits, where single underscores may stand between digits. Anything else
  raises \<^verbatim>\<open>ValueError\<close>. (The interpreter's limit of 4300 digits is not modelled:
  a Telegram message or callback token is shorter.)
\<close>

definition int_isspace :: "nat \<Rightarrow> bool" where
  "int_isspace c = ((9 \<le> c \<and> c \<le> 13) \<or> c = 32 \<or> (127 \<le> c \<and> py_isspace c))"

definition int_strip :: "pystr \<Rightarrow> pystr" where
  "int_strip s = rev (dropWhile int_isspace (rev (dropWhile int_isspace s)))"

fun no_double_underscore :: "pystr \<Rightarrow> bool" where
  "no_double_underscore (x # y # ys) = (\<not> (x = 95 \<and> y = 95) \<and> no_double_underscore (y # ys))"
| "no_double_underscore _ = True"

definition valid_digits :: "pystr \<Rightarrow> bool" where
  "valid_digits b = (b \<noteq> [] \<and> list_all (\<lambda>c. c = 95 \<or> py_isdecimal c) b
     \<and> hd b \<noteq> 95 \<and> last b \<noteq> 95 \<and> no_double_underscore b)"

definition digits_value :: "pystr \<Rightarrow> nat" where
  "digits_value b = foldl (\<lambda>a c. 10 * a + decimal_value c) 0 (filter (\<lambda>c. c \<noteq> 95) b)"

definition py_int_str :: "pystr \<Rightarrow> pyerror + int" where
  "py_int_str s =
     (let t = int_strip s;
          neg = (t \<noteq> [] \<and> hd t = 45);
          body = (if t \<noteq> [] \<and> (hd t = 45 \<or> hd t = 43) then tl t else t)
      in if valid_digits body
         then Inr (if neg then - int (digits_value body) else int (digits_value body))
         else Inl ValueError)"

subsection \<open>JSON values\<close>

text \<open>
  The values the backend's JSON bodies hold. Floating-point numbers are kept opaque (type
  \<open>'f\<close>); what the interpreter does with them, the \<^verbatim>\<open>repr\<close> of a string and the
  Unicode case mapping of \<^verbatim>\<open>str.lower\<close> are parameters (\<open>pyrt\<close>): no handler's
  control flow depends on them beyond what is written here. A dict is the list of its
  items in insertion order, with distinct keys.
\<close>

datatype 'f pyval = PNone | PBool bool | PInt int | PFloat 'f | PStr pystr
  | PList "'f pyval list" | PDict "(pystr \<times> 'f pyval) list"

type_synonym 'f pydict = "(pystr \<times> 'f pyval) list"

record 'f pyrt =
  float_repr :: "'f \<Rightarrow> pystr"
  float_nonzero :: "'f \<Rightarrow> bool"
  float_int :: "'f \<Rightarrow> pyerror + int"
  str_repr :: "pystr \<Rightarrow> pystr"
  str_lower :: "pystr \<Rightarrow> pystr"

fun py_repr :: "'f pyrt \<Rightarrow> 'f pyval \<Rightarrow> pystr" where
  "py_repr rt PNone = ascii ''None''"
| "py_repr rt (PBool b) = (if b then ascii ''True'' else ascii ''False'')"
| "py_repr rt (PInt i) = str_of_int i"
| "py_repr rt (PFloat f) = float_repr rt f"
| "py_repr rt (PStr s) = str_repr rt s"
| "py_repr rt (PList xs) =
     ascii ''['' @ str_join (ascii '', '') (map (py_repr rt) xs) @ ascii '']''"
| "py_repr rt (PDict kvs) =
     ascii ''{'' @ str_join (ascii '', '')
        (map (\<lambda>(k, v). str_repr rt k @ ascii '': '' @ py_repr rt v) kvs) @ ascii ''}''"

text \<open>\<^verbatim>\<open>str(v)\<close>, which is also what an f-string interpolates.\<close>

definition py_str :: "'f pyrt \<Rightarrow> 'f pyval \<Rightarrow> pystr" where
  "py_str rt v = (case v of PStr s \<Rightarrow> s | _ \<Rightarrow> py_repr rt v)"

text \<open>Truth value of \<open>v\<close>, as \<^verbatim>\<open>if v\<close>, \<^verbatim>\<open>not v\<close> and \<^verbatim>\<open>v or d\<close> test it.\<close>

fun truthy :: "'f pyrt \<Rightarrow> 'f pyval \<Rightarrow> bool" where
  "truthy rt PNone = False"
| "truthy rt (PBool b) = b"
| "truthy rt (PInt i) = (i \<noteq> 0)"
| "truthy rt (PFloat f) = float_nonzero rt f"
| "truthy rt (PStr s) = (s \<noteq> [])"
| "truthy rt (PList xs) = (xs \<noteq> [])"
| "truthy rt (PDict kvs) = (kvs \<noteq> [])"

definition py_or :: "'f pyrt \<Rightarrow> 'f pyval \<Rightarrow> 'f pyval \<Rightarrow> 'f pyval" where
  "py_or rt a b = (if truthy rt a then a else b)"

text \<open>\<^verbatim>\<open>int(v)\<close>\<close>

fun py_int :: "'f pyrt \<Rightarrow> 'f pyval \<Rightarrow> pyerror + int" where
  "py_int rt (PBool b) = Inr (if b then 1 else 0)"
| "py_int rt (PInt i) = Inr i"
| "py_int rt (PFloat f) = float_int rt f"
| "py_int rt (PStr s) = py_int_str s"
| "py_int rt _ = Inl TypeError"

text \<open>\<^verbatim>\<open>d.get(k)\<close> and \<^verbatim>\<open>d.get(k, default)\<close>\<close>

definition dict_get :: "'f pydict \<Rightarrow> pystr \<Rightarrow> 'f pyval" where
  "dict_get d k = (case map_of d k of Some v \<Rightarrow> v | None \<Rightarrow> PNone)"

definition dict_get_default :: "'f pydict \<Rightarrow> pystr \<Rightarrow> 'f pyval \<Rightarrow> 'f pyval" where
  "dict_get_default d k dflt = (case map_of d k of Some v \<Rightarrow> v | None \<Rightarrow> dflt)"

text \<open>
  Methods and operators of \<^verbatim>\<open>str\<close> applied to a value that need not be a string:
  \<^verbatim>\<open>v.strip()\<close> and \<^verbatim>\<open>v.lower()\<close> raise \<^verbatim>\<open>AttributeError\<close> on another type,
  \<^verbatim>\<open>a + b\<close> with a string on one side raises \<^verbatim>\<open>TypeError\<close>.
\<close>

definition bind_err :: "pyerror + 'a \<Rightarrow> ('a \<Rightarrow> pyerror + 'b) \<Rightarrow> pyerror + 'b" where
  "bind_err m f = (case m of Inl e \<Rightarrow> Inl e | Inr x \<Rightarrow> f x)"

definition val_strip :: "'f pyval \<Rightarrow> pyerror + pystr" where
  "val_strip v = (case v of PStr s \<Rightarrow> Inr (str_strip s) | _ \<Rightarrow> Inl AttributeError)"

definition val_lower :: "'f pyrt \<Rightarrow> 'f pyval \<Rightarrow> pyerror + pystr" where
  "val_lower rt v = (case v of PStr s \<Rightarrow> Inr (str_lower rt s) | _ \<Rightarrow> Inl AttributeError)"

definition val_concat :: "'f pyval \<Rightarrow> 'f pyval \<Rightarrow> pyerror + 'f pyval" where
  "val_concat a b =
     (case (a, b) of (PStr s, PStr t) \<Rightarrow> Inr (PStr (s @ t)) | _ \<Rightarrow> Inl TypeError)"

section \<open>Texts of the bot\<close>

text \<open>
  The string literals of bot.py that are not ASCII, as code points, each with an English
  gloss. The pieces of an f-string are the literal segments around its fields.
\<close>

definition NON_ADMIN_SCAN_TEXT :: pystr where \<comment> \<open>the fixed invitation text for scanners who are not admins (lines 42-50)\<close>
  "NON_ADMIN_SCAN_TEXT = [1063, 1090, 1086, 1073, 1099, 32, 1074, 1086, 1089, 1087, 1086,
     1083, 1100, 1079, 1086, 1074, 1072, 1090, 1100, 1089, 1103, 32, 127873, 32, 1055, 1086,
     1076, 1072, 1088, 1086, 1095, 1085, 1099, 1084, 32, 1089, 1077, 1088, 1090, 1080, 1092,
     1080, 1082, 1072, 1090, 1086, 1084, 44, 32, 1087, 1088, 1080, 1075, 1083, 1072, 1096,
     1072, 1077, 1084, 32, 1074, 1072, 1089, 32, 1074, 32, 1085, 1072, 1096, 1091, 32, 1074,
     1080, 1088, 1090, 1091, 1072, 1083, 1100, 1085, 1091, 1102, 32, 1072, 1088, 1077, 1085,
     1091, 32, 86, 82, 80, 79, 73, 78, 84, 46, 66, 89, 32, 128374, 10024, 10, 1047, 1072,
     1073, 1088, 1086, 1085, 1080, 1088, 1086, 1074, 1072, 1090, 1100, 32, 1091, 1089, 1083,
     1091, 1075, 1091, 32, 1084, 1086, 1078, 1085, 1086, 32, 1085, 1072, 32, 1089, 1072,
     1081, 1090, 1077, 58, 32, 104, 116, 116, 112, 115, 58, 47, 47, 118, 114, 112, 111, 105,
     110, 116, 46, 98, 121, 32, 127760, 10, 10, 128205, 32, 1053, 1072, 1096, 1080, 32,
     1072, 1076, 1088, 1077, 1089, 1072, 32, 1074, 32, 1052, 1080, 1085, 1089, 1082, 1077,
     58, 10, 8226, 32, 1071, 46, 32, 1050, 1086, 1083, 1072, 1089, 1072, 44, 32, 51, 55, 10,
     8226, 32, 1052, 1072, 1103, 1082, 1086, 1074, 1089, 1082, 1086, 1075, 1086, 44, 32, 54,
     32, 40, 1058, 1062, 32, 171, 1063, 1077, 1088, 1074, 1077, 1085, 1089, 1082, 1080,
     1081, 187, 41, 10, 10, 128222, 32, 1058, 1077, 1083, 1077, 1092, 1086, 1085, 32, 1076,
     1083, 1103, 32, 1089, 1074, 1103, 1079, 1080, 58, 32, 43, 51, 55, 53, 50, 57, 49, 52,
     49, 57, 57, 50, 49, 10, 10, 1044, 1086, 32, 1074, 1089, 1090, 1088, 1077, 1095, 1080,
     32, 1074, 32, 86, 82, 32, 128640, 127918]"

definition txt_access_restricted :: pystr where \<comment> \<open>"Access restricted."\<close>
  "txt_access_restricted = [1044, 1086, 1089, 1090, 1091, 1087, 32, 1086, 1075, 1088, 1072,
     1085, 1080, 1095, 1077, 1085, 46]"

definition btn_create :: pystr where \<comment> \<open>menu button "Create certificate"\<close>
  "btn_create = [10133, 32, 1057, 1086, 1079, 1076, 1072, 1090, 1100, 32, 1089, 1077, 1088,
     1090, 1080, 1092, 1080, 1082, 1072, 1090]"

definition btn_journal :: pystr where \<comment> \<open>menu button "Journal"\<close>
  "btn_journal = [128210, 32, 1046, 1091, 1088, 1085, 1072, 1083]"

definition btn_sheet :: pystr where \<comment> \<open>menu button "Open Google sheet"\<close>
  "btn_sheet = [128279, 32, 1054, 1090, 1082, 1088, 1099, 1090, 1100, 32, 71, 111, 111, 103,
     108, 101, 45, 1090, 1072, 1073, 1083, 1080, 1094, 1091]"

definition txt_choose_action :: pystr where \<comment> \<open>"Choose an action:"\<close>
  "txt_choose_action = [1042, 1099, 1073, 1077, 1088, 1080, 1090, 1077, 32, 1076, 1077,
     1081, 1089, 1090, 1074, 1080, 1077, 58]"

definition txt_not_found_head :: pystr where \<comment> \<open>"Certificate not found. Code: "\<close>
  "txt_not_found_head = [10060, 32, 1057, 1077, 1088, 1090, 1080, 1092, 1080, 1082, 1072,
     1090, 32, 1085, 1077, 32, 1085, 1072, 1081, 1076, 1077, 1085, 46, 10, 1050, 1086, 1076,
     58, 32]"

definition txt_not_found :: pystr where \<comment> \<open>"Certificate not found."\<close>
  "txt_not_found = [1057, 1077, 1088, 1090, 1080, 1092, 1080, 1082, 1072, 1090, 32, 1085,
     1077, 32, 1085, 1072, 1081, 1076, 1077, 1085, 46]"

definition txt_not_found_short :: pystr where \<comment> \<open>"Not found."\<close>
  "txt_not_found_short = [1053, 1077, 32, 1085, 1072, 1081, 1076, 1077, 1085, 46]"

definition txt_card_title :: pystr where \<comment> \<open>card title "<b>Certificate</b>"\<close>
  "txt_card_title = [127903, 32, 60, 98, 62, 1057, 1077, 1088, 1090, 1080, 1092, 1080, 1082,
     1072, 1090, 60, 47, 98, 62]"

definition txt_card_code :: pystr where \<comment> \<open>"Code: <b>"\<close>
  "txt_card_code = [1050, 1086, 1076, 58, 32, 60, 98, 62]"

definition txt_card_amount :: pystr where \<comment> \<open>"Amount: <b>"\<close>
  "txt_card_amount = [1057, 1091, 1084, 1084, 1072, 58, 32, 60, 98, 62]"

definition txt_card_status :: pystr where \<comment> \<open>"Status: "\<close>
  "txt_card_status = [1057, 1090, 1072, 1090, 1091, 1089, 58, 32]"

definition txt_card_source :: pystr where \<comment> \<open>"Source: <code>"\<close>
  "txt_card_source = [1048, 1089, 1090, 1086, 1095, 1085, 1080, 1082, 58, 32, 60, 99, 111,
     100, 101, 62]"

definition txt_dash :: pystr where \<comment> \<open>an em dash\<close>
  "txt_dash = [8212]"

definition txt_card_recipient :: pystr where \<comment> \<open>"Recipient: <b>"\<close>
  "txt_card_recipient = [1055, 1086, 1083, 1091, 1095, 1072, 1090, 1077, 1083, 1100, 58, 32,
     60, 98, 62]"

definition txt_card_recipient_sep :: pystr where \<comment> \<open>"</b>", blank, em dash, blank\<close>
  "txt_card_recipient_sep = [60, 47, 98, 62, 32, 8212, 32]"

definition txt_card_donor :: pystr where \<comment> \<open>"Donor: <b>"\<close>
  "txt_card_donor = [1044, 1072, 1088, 1080, 1090, 1077, 1083, 1100, 58, 32, 60, 98, 62]"

definition txt_created :: pystr where \<comment> \<open>"Created"\<close>
  "txt_created = [1057, 1086, 1079, 1076, 1072, 1085]"

definition txt_sent :: pystr where \<comment> \<open>"Sent"\<close>
  "txt_sent = [1054, 1090, 1087, 1088, 1072, 1074, 1083, 1077, 1085]"

definition txt_used :: pystr where \<comment> \<open>"Used"\<close>
  "txt_used = [1048, 1089, 1087, 1086, 1083, 1100, 1079, 1086, 1074, 1072, 1085]"

definition txt_annulled :: pystr where \<comment> \<open>"Annulled"\<close>
  "txt_annulled = [1040, 1085, 1085, 1091, 1083, 1080, 1088, 1086, 1074, 1072, 1085]"

definition txt_card_order :: pystr where \<comment> \<open>"Order: <code>#"\<close>
  "txt_card_order = [1047, 1072, 1082, 1072, 1079, 58, 32, 60, 99, 111, 100, 101, 62, 35]"

definition emoji_used :: pystr where \<comment> \<open>recycling sign\<close>
  "emoji_used = [9851, 65039]"

definition emoji_annulled :: pystr where \<comment> \<open>no-entry sign\<close>
  "emoji_annulled = [128683]"

definition emoji_error :: pystr where \<comment> \<open>warning sign\<close>
  "emoji_error = [9888, 65039]"

definition emoji_ok :: pystr where \<comment> \<open>check mark\<close>
  "emoji_ok = [9989]"

definition txt_manual :: pystr where \<comment> \<open>"Created by hand"\<close>
  "txt_manual = [1057, 1086, 1079, 1076, 1072, 1085, 32, 1074, 1088, 1091, 1095, 1085, 1091,
     1102]"

definition txt_send_error :: pystr where \<comment> \<open>"Sending failed"\<close>
  "txt_send_error = [1054, 1096, 1080, 1073, 1082, 1072, 32, 1086, 1090, 1087, 1088, 1072,
     1074, 1082, 1080]"

definition btn_pdf :: pystr where \<comment> \<open>inline button "PDF"\<close>
  "btn_pdf = [128196, 32, 80, 68, 70]"

definition btn_email :: pystr where \<comment> \<open>inline button "Email"\<close>
  "btn_email = [9993, 65039, 32, 69, 109, 97, 105, 108]"

definition btn_use :: pystr where \<comment> \<open>inline button "Use"\<close>
  "btn_use = [9989, 32, 1048, 1089, 1087, 1086, 1083, 1100, 1079, 1086, 1074, 1072, 1090,
     1100]"

definition btn_annul :: pystr where \<comment> \<open>inline button "Annul"\<close>
  "btn_annul = [128683, 32, 1040, 1085, 1085, 1091, 1083, 1080, 1088, 1086, 1074, 1072,
     1090, 1100]"

definition btn_delete :: pystr where \<comment> \<open>inline button "Delete"\<close>
  "btn_delete = [128465, 32, 1059, 1076, 1072, 1083, 1080, 1090, 1100]"

definition txt_enter_amount :: pystr where \<comment> \<open>"Enter the amount (BYN), digits only. For example: 70 ... /cancel"\<close>
  "txt_enter_amount = [1042, 1074, 1077, 1076, 1080, 1090, 1077, 32, 1089, 1091, 1084, 1084,
     1091, 32, 40, 66, 89, 78, 41, 44, 32, 1090, 1086, 1083, 1100, 1082, 1086, 32, 1094,
     1080, 1092, 1088, 1099, 46, 32, 1053, 1072, 1087, 1088, 1080, 1084, 1077, 1088, 58, 32,
     55, 48, 10, 10, 47, 99, 97, 110, 99, 101, 108, 32, 8212, 32, 1086, 1090, 1084, 1077,
     1085, 1072]"

definition txt_cancelled :: pystr where \<comment> \<open>"Cancelled."\<close>
  "txt_cancelled = [1054, 1090, 1084, 1077, 1085, 1077, 1085, 1086, 46]"

definition txt_need_number :: pystr where \<comment> \<open>"A number > 0 is needed. Example: 70"\<close>
  "txt_need_number = [1053, 1091, 1078, 1085, 1086, 32, 1095, 1080, 1089, 1083, 1086, 32,
     62, 32, 48, 46, 32, 1055, 1088, 1080, 1084, 1077, 1088, 58, 32, 55, 48]"

definition txt_ask_recipient_name :: pystr where \<comment> \<open>"Recipient name (optional). Or write '-' to skip."\<close>
  "txt_ask_recipient_name = [1048, 1084, 1103, 32, 1087, 1086, 1083, 1091, 1095, 1072, 1090,
     1077, 1083, 1103, 32, 40, 1086, 1087, 1094, 1080, 1086, 1085, 1072, 1083, 1100, 1085,
     1086, 41, 46, 32, 1048, 1083, 1080, 32, 1085, 1072, 1087, 1080, 1096, 1080, 1090, 1077,
     32, 39, 45, 39, 32, 1095, 1090, 1086, 1073, 1099, 32, 1087, 1088, 1086, 1087, 1091,
     1089, 1090, 1080, 1090, 1100, 46]"

definition txt_ask_donor_first :: pystr where \<comment> \<open>"Donor first name (optional). Or '-' to skip."\<close>
  "txt_ask_donor_first = [1048, 1084, 1103, 32, 1076, 1072, 1088, 1080, 1090, 1077, 1083,
     1103, 32, 40, 1086, 1087, 1094, 1080, 1086, 1085, 1072, 1083, 1100, 1085, 1086, 41, 46,
     32, 1048, 1083, 1080, 32, 39, 45, 39, 32, 1095, 1090, 1086, 1073, 1099, 32, 1087, 1088,
     1086, 1087, 1091, 1089, 1090, 1080, 1090, 1100, 46]"

definition txt_ask_donor_last :: pystr where \<comment> \<open>"Donor last name (optional). Or '-' to skip."\<close>
  "txt_ask_donor_last = [1060, 1072, 1084, 1080, 1083, 1080, 1103, 32, 1076, 1072, 1088,
     1080, 1090, 1077, 1083, 1103, 32, 40, 1086, 1087, 1094, 1080, 1086, 1085, 1072, 1083,
     1100, 1085, 1086, 41, 46, 32, 1048, 1083, 1080, 32, 39, 45, 39, 32, 1095, 1090, 1086,
     1073, 1099, 32, 1087, 1088, 1086, 1087, 1091, 1089, 1090, 1080, 1090, 1100, 46]"

definition txt_ask_recipient_email :: pystr where \<comment> \<open>"Recipient email (optional). Or '-' to skip."\<close>
  "txt_ask_recipient_email = [69, 109, 97, 105, 108, 32, 1087, 1086, 1083, 1091, 1095, 1072,
     1090, 1077, 1083, 1103, 32, 40, 1086, 1087, 1094, 1080, 1086, 1085, 1072, 1083, 1100,
     1085, 1086, 41, 46, 32, 1048, 1083, 1080, 32, 39, 45, 39, 32, 1095, 1090, 1086, 1073,
     1099, 32, 1087, 1088, 1086, 1087, 1091, 1089, 1090, 1080, 1090, 1100, 46]"

definition txt_summary_amount :: pystr where \<comment> \<open>"Check the data: Amount: "\<close>
  "txt_summary_amount = [1055, 1088, 1086, 1074, 1077, 1088, 1100, 1090, 1077, 32, 1076,
     1072, 1085, 1085, 1099, 1077, 58, 10, 8226, 32, 1057, 1091, 1084, 1084, 1072, 58, 32]"

definition txt_summary_recipient :: pystr where \<comment> \<open>" BYN, Recipient: "\<close>
  "txt_summary_recipient = [32, 66, 89, 78, 10, 8226, 32, 1055, 1086, 1083, 1091, 1095,
     1072, 1090, 1077, 1083, 1100, 58, 32]"

definition txt_summary_donor :: pystr where \<comment> \<open>"Donor: "\<close>
  "txt_summary_donor = [10, 8226, 32, 1044, 1072, 1088, 1080, 1090, 1077, 1083, 1100, 58,
     32]"

definition txt_summary_email :: pystr where \<comment> \<open>"Email: "\<close>
  "txt_summary_email = [10, 8226, 32, 69, 109, 97, 105, 108, 58, 32]"

definition txt_summary_how :: pystr where \<comment> \<open>"How to send?"\<close>
  "txt_summary_how = [10, 10, 1050, 1072, 1082, 32, 1086, 1090, 1087, 1088, 1072, 1074,
     1080, 1090, 1100, 63]"

definition btn_pdf_in_chat :: pystr where \<comment> \<open>delivery choice "PDF in Telegram"\<close>
  "btn_pdf_in_chat = [128196, 32, 80, 68, 70, 32, 1074, 32, 84, 101, 108, 101, 103, 114, 97,
     109]"

definition btn_by_email :: pystr where \<comment> \<open>delivery choice "By email"\<close>
  "btn_by_email = [9993, 65039, 32, 1053, 1072, 32, 101, 109, 97, 105, 108]"

definition btn_cancel :: pystr where \<comment> \<open>the cancel literal "Cancel"\<close>
  "btn_cancel = [10060, 32, 1054, 1090, 1084, 1077, 1085, 1072]"

definition txt_email_missing :: pystr where \<comment> \<open>"You chose email, but no email is given. ..."\<close>
  "txt_email_missing = [1042, 1099, 32, 1074, 1099, 1073, 1088, 1072, 1083, 1080, 32, 101,
     109, 97, 105, 108, 44, 32, 1085, 1086, 32, 101, 109, 97, 105, 108, 32, 1085, 1077, 32,
     1091, 1082, 1072, 1079, 1072, 1085, 46, 32, 1042, 1074, 1077, 1076, 1080, 1090, 1077,
     32, 101, 109, 97, 105, 108, 32, 1080, 1083, 1080, 32, 1074, 1099, 1073, 1077, 1088,
     1080, 1090, 1077, 32, 80, 68, 70, 32, 1074, 32, 84, 101, 108, 101, 103, 114, 97, 109,
     46]"

definition txt_generating :: pystr where \<comment> \<open>"Generating the certificate..."\<close>
  "txt_generating = [1043, 1077, 1085, 1077, 1088, 1080, 1088, 1091, 1102, 32, 1089, 1077,
     1088, 1090, 1080, 1092, 1080, 1082, 1072, 1090, 8230]"

definition txt_api_error :: pystr where \<comment> \<open>"API error: "\<close>
  "txt_api_error = [1054, 1096, 1080, 1073, 1082, 1072, 32, 65, 80, 73, 58, 32]"

definition txt_caption_code :: pystr where \<comment> \<open>"Certificate created. Code: "\<close>
  "txt_caption_code = [1057, 1077, 1088, 1090, 1080, 1092, 1080, 1082, 1072, 1090, 32, 1089,
     1086, 1079, 1076, 1072, 1085, 32, 9989, 10, 1050, 1086, 1076, 58, 32]"

definition txt_caption_amount :: pystr where \<comment> \<open>"Amount: "\<close>
  "txt_caption_amount = [10, 1057, 1091, 1084, 1084, 1072, 58, 32]"

definition txt_caption_source :: pystr where \<comment> \<open>" BYN, Source: telegram"\<close>
  "txt_caption_source = [32, 66, 89, 78, 10, 1048, 1089, 1090, 1086, 1095, 1085, 1080, 1082,
     58, 32, 116, 101, 108, 101, 103, 114, 97, 109]"

definition txt_created_no_pdf :: pystr where \<comment> \<open>"Created, but could not send the PDF: "\<close>
  "txt_created_no_pdf = [1057, 1086, 1079, 1076, 1072, 1085, 44, 32, 1085, 1086, 32, 1085,
     1077, 32, 1089, 1084, 1086, 1075, 32, 1086, 1090, 1087, 1088, 1072, 1074, 1080, 1090,
     1100, 32, 80, 68, 70, 58, 32]"

definition btn_journal_sheet :: pystr where \<comment> \<open>url button "Journal (Google sheet)"\<close>
  "btn_journal_sheet = [128210, 32, 1046, 1091, 1088, 1085, 1072, 1083, 32, 40, 71, 111,
     111, 103, 108, 101, 32, 1058, 1072, 1073, 1083, 1080, 1094, 1072, 41]"

definition txt_journal :: pystr where \<comment> \<open>"Journal:"\<close>
  "txt_journal = [1046, 1091, 1088, 1085, 1072, 1083, 58]"

definition txt_done :: pystr where \<comment> \<open>"Done."\<close>
  "txt_done = [1043, 1086, 1090, 1086, 1074, 1086, 46]"

definition txt_scan_usage :: pystr where \<comment> \<open>"Usage: /scan 123456"\<close>
  "txt_scan_usage = [1048, 1089, 1087, 1086, 1083, 1100, 1079, 1086, 1074, 1072, 1085, 1080,
     1077, 58, 32, 47, 115, 99, 97, 110, 32, 49, 50, 51, 52, 53, 54]"

definition txt_need_numeric_code :: pystr where \<comment> \<open>"A numeric code is needed."\<close>
  "txt_need_numeric_code = [1053, 1091, 1078, 1077, 1085, 32, 1095, 1080, 1089, 1083, 1086,
     1074, 1086, 1081, 32, 1082, 1086, 1076, 46]"

definition txt_bad_command :: pystr where \<comment> \<open>"Malformed command."\<close>
  "txt_bad_command = [1053, 1077, 1082, 1086, 1088, 1088, 1077, 1082, 1090, 1085, 1072,
     1103, 32, 1082, 1086, 1084, 1072, 1085, 1076, 1072, 46]"

definition btn_yes_delete :: pystr where \<comment> \<open>inline button "Yes, delete"\<close>
  "btn_yes_delete = [9989, 32, 1044, 1072, 44, 32, 1091, 1076, 1072, 1083, 1080, 1090,
     1100]"

definition btn_undo :: pystr where \<comment> \<open>inline button "Cancel"\<close>
  "btn_undo = [8617, 65039, 32, 1054, 1090, 1084, 1077, 1085, 1072]"

definition txt_delete_question :: pystr where \<comment> \<open>"Delete certificate #"\<close>
  "txt_delete_question = [1059, 1076, 1072, 1083, 1080, 1090, 1100, 32, 1089, 1077, 1088,
     1090, 1080, 1092, 1080, 1082, 1072, 1090, 32, 35]"

definition txt_code_released :: pystr where \<comment> \<open>"? The code becomes available again."\<close>
  "txt_code_released = [63, 32, 1050, 1086, 1076, 32, 1089, 1090, 1072, 1085, 1077, 1090,
     32, 1076, 1086, 1089, 1090, 1091, 1087, 1077, 1085, 32, 1089, 1085, 1086, 1074, 1072,
     46]"

definition txt_not_deleting :: pystr where \<comment> \<open>"Ok, not deleting."\<close>
  "txt_not_deleting = [1054, 1082, 44, 32, 1085, 1077, 32, 1091, 1076, 1072, 1083, 1103,
     1102, 46]"

definition txt_deleting :: pystr where \<comment> \<open>"Deleting..."\<close>
  "txt_deleting = [1059, 1076, 1072, 1083, 1103, 1102, 8230]"

definition txt_delete_error :: pystr where \<comment> \<open>"Deletion failed: "\<close>
  "txt_delete_error = [10060, 32, 1054, 1096, 1080, 1073, 1082, 1072, 32, 1091, 1076, 1072,
     1083, 1077, 1085, 1080, 1103, 58, 32]"

definition txt_deleted :: pystr where \<comment> \<open>"Deleted (certificate #"\<close>
  "txt_deleted = [1059, 1076, 1072, 1083, 1105, 1085, 32, 9989, 32, 40, 1089, 1077, 1088,
     1090, 1080, 1092, 1080, 1082, 1072, 1090, 32, 35]"

definition txt_deleted_tail :: pystr where \<comment> \<open>"). The code is available again."\<close>
  "txt_deleted_tail = [41, 46, 32, 1050, 1086, 1076, 32, 1089, 1090, 1072, 1083, 32, 1076,
     1086, 1089, 1090, 1091, 1087, 1077, 1085, 32, 1089, 1085, 1086, 1074, 1072, 46]"

definition txt_preparing_pdf :: pystr where \<comment> \<open>"Preparing the PDF..."\<close>
  "txt_preparing_pdf = [1043, 1086, 1090, 1086, 1074, 1083, 1102, 32, 80, 68, 70, 8230]"

definition txt_pdf_caption :: pystr where \<comment> \<open>"PDF of certificate #"\<close>
  "txt_pdf_caption = [80, 68, 70, 32, 1089, 1077, 1088, 1090, 1080, 1092, 1080, 1082, 1072,
     1090, 1072, 32, 35]"

definition txt_pdf_error :: pystr where \<comment> \<open>"PDF error: "\<close>
  "txt_pdf_error = [1054, 1096, 1080, 1073, 1082, 1072, 32, 80, 68, 70, 58, 32]"

definition txt_sending_email :: pystr where \<comment> \<open>"Sending the email..."\<close>
  "txt_sending_email = [1054, 1090, 1087, 1088, 1072, 1074, 1083, 1103, 1102, 32, 101, 109,
     97, 105, 108, 8230]"

definition txt_send_failed :: pystr where \<comment> \<open>"Sending failed: "\<close>
  "txt_send_failed = [10060, 32, 1054, 1096, 1080, 1073, 1082, 1072, 32, 1086, 1090, 1087,
     1088, 1072, 1074, 1082, 1080, 58, 32]"

definition txt_email_sent :: pystr where \<comment> \<open>"Email sent (certificate #"\<close>
  "txt_email_sent = [69, 109, 97, 105, 108, 32, 1086, 1090, 1087, 1088, 1072, 1074, 1083,
     1077, 1085, 32, 9989, 32, 40, 1089, 1077, 1088, 1090, 1080, 1092, 1080, 1082, 1072,
     1090, 32, 35]"

definition txt_marking_used :: pystr where \<comment> \<open>"Marking as used..."\<close>
  "txt_marking_used = [1054, 1090, 1084, 1077, 1095, 1072, 1102, 32, 1082, 1072, 1082, 32,
     1080, 1089, 1087, 1086, 1083, 1100, 1079, 1086, 1074, 1072, 1085, 1085, 1099, 1081,
     8230]"

definition txt_used_note :: pystr where \<comment> \<open>"Used through Telegram"\<close>
  "txt_used_note = [1048, 1089, 1087, 1086, 1083, 1100, 1079, 1086, 1074, 1072, 1085, 32,
     1095, 1077, 1088, 1077, 1079, 32, 84, 101, 108, 101, 103, 114, 97, 109]"

definition txt_use_failed :: pystr where \<comment> \<open>"It did not work: "\<close>
  "txt_use_failed = [10060, 32, 1053, 1077, 32, 1087, 1086, 1083, 1091, 1095, 1080, 1083,
     1086, 1089, 1100, 58, 32]"

definition txt_done_ok :: pystr where \<comment> \<open>"Done" with a check mark\<close>
  "txt_done_ok = [1043, 1086, 1090, 1086, 1074, 1086, 32, 9989]"

definition txt_annulling :: pystr where \<comment> \<open>"Annulling..."\<close>
  "txt_annulling = [1040, 1085, 1085, 1091, 1083, 1080, 1088, 1091, 1102, 8230]"

definition txt_annul_reason :: pystr where \<comment> \<open>"Annulled through Telegram"\<close>
  "txt_annul_reason = [1040, 1085, 1085, 1091, 1083, 1080, 1088, 1086, 1074, 1072, 1085, 32,
     1095, 1077, 1088, 1077, 1079, 32, 84, 101, 108, 101, 103, 114, 97, 109]"

definition txt_annul_failed :: pystr where \<comment> \<open>"Error: "\<close>
  "txt_annul_failed = [10060, 32, 1054, 1096, 1080, 1073, 1082, 1072, 58, 32]"

definition txt_annulled_ok :: pystr where \<comment> \<open>"Annulled (certificate #"\<close>
  "txt_annulled_ok = [128683, 32, 1040, 1085, 1085, 1091, 1083, 1080, 1088, 1086, 1074,
     1072, 1085, 32, 9989, 32, 40, 1089, 1077, 1088, 1090, 1080, 1092, 1080, 1082, 1072,
     1090, 32, 35]"

definition txt_unknown_action :: pystr where \<comment> \<open>"Unknown action."\<close>
  "txt_unknown_action = [1053, 1077, 1080, 1079, 1074, 1077, 1089, 1090, 1085, 1086, 1077,
     32, 1076, 1077, 1081, 1089, 1090, 1074, 1080, 1077, 46]"

definition txt_pdf_usage :: pystr where \<comment> \<open>"Usage: /pdf 12345 (where 12345 is the certificate code)"\<close>
  "txt_pdf_usage = [1048, 1089, 1087, 1086, 1083, 1100, 1079, 1086, 1074, 1072, 1085, 1080,
     1077, 58, 32, 47, 112, 100, 102, 32, 49, 50, 51, 52, 53, 32, 40, 1075, 1076, 1077, 32,
     49, 50, 51, 52, 53, 32, 8212, 32, 1082, 1086, 1076, 32, 1089, 1077, 1088, 1090, 1080,
     1092, 1080, 1082, 1072, 1090, 1072, 41]"

definition txt_pdf_by_code :: pystr where \<comment> \<open>"PDF for code "\<close>
  "txt_pdf_by_code = [80, 68, 70, 32, 1087, 1086, 32, 1082, 1086, 1076, 1091, 32]"

definition txt_error :: pystr where \<comment> \<open>"Error: "\<close>
  "txt_error = [1054, 1096, 1080, 1073, 1082, 1072, 58, 32]"

definition txt_journal_empty :: pystr where \<comment> \<open>"The journal is empty."\<close>
  "txt_journal_empty = [1046, 1091, 1088, 1085, 1072, 1083, 32, 1087, 1091, 1089, 1090, 46]"

definition txt_latest :: pystr where \<comment> \<open>"Latest certificates (actions under each):"\<close>
  "txt_latest = [1055, 1086, 1089, 1083, 1077, 1076, 1085, 1080, 1077, 32, 1089, 1077, 1088,
     1090, 1080, 1092, 1080, 1082, 1072, 1090, 1099, 32, 40, 1076, 1077, 1081, 1089, 1090,
     1074, 1080, 1103, 32, 1087, 1086, 1076, 32, 1082, 1072, 1078, 1076, 1099, 1084, 41,
     58]"

definition txt_more :: pystr where \<comment> \<open>"More:"\<close>
  "txt_more = [1044, 1086, 1087, 1086, 1083, 1085, 1080, 1090, 1077, 1083, 1100, 1085, 1086,
     58]"

definition txt_no_sheet :: pystr where \<comment> \<open>"The sheet link is not configured."\<close>
  "txt_no_sheet = [1057, 1089, 1099, 1083, 1082, 1072, 32, 1085, 1072, 32, 1090, 1072, 1073,
     1083, 1080, 1094, 1091, 32, 1085, 1077, 32, 1085, 1072, 1089, 1090, 1088, 1086, 1077,
     1085, 1072, 46]"

definition btn_open_journal :: pystr where \<comment> \<open>url button "Open the journal"\<close>
  "btn_open_journal = [1054, 1090, 1082, 1088, 1099, 1090, 1100, 32, 1078, 1091, 1088, 1085,
     1072, 1083]"

definition txt_journal_of_certs :: pystr where \<comment> \<open>"Journal of certificates:"\<close>
  "txt_journal_of_certs = [1046, 1091, 1088, 1085, 1072, 1083, 32, 1089, 1077, 1088, 1090,
     1080, 1092, 1080, 1082, 1072, 1090, 1086, 1074, 58]"

section \<open>Identity gate\<close>

text \<open>
  \<^verbatim>\<open>TG_ADMIN_IDS\<close> is the set read from the environment; \<open>effective_user\<close> is the id of
  \<^verbatim>\<open>update.effective_user\<close>, or \<open>None\<close> when the update has none.
\<close>

definition is_admin :: "int set \<Rightarrow> int option \<Rightarrow> bool" where
  "is_admin TG_ADMIN_IDS effective_user =
     (let uid = (case effective_user of Some u \<Rightarrow> u | None \<Rightarrow> 0)
      in TG_ADMIN_IDS = {} \<or> uid \<in> TG_ADMIN_IDS)"


section \<open>Formatting helpers (HTML)\<close>

definition esc_html :: "'f pyrt \<Rightarrow> 'f pyval \<Rightarrow> pystr" where
  "esc_html rt s =
     (let s1 = (case s of PNone \<Rightarrow> [] | _ \<Rightarrow> py_str rt s)
      in str_replace 62 (ascii ''&gt;'')
           (str_replace 60 (ascii ''&lt;'') (str_replace 38 (ascii ''&amp;'') s1)))"

definition status_emoji :: "'f pyrt \<Rightarrow> 'f pyval \<Rightarrow> pyerror + pystr" where
  "status_emoji rt status =
     bind_err (val_lower rt (py_or rt status (PStr []))) (\<lambda>s.
       if s = ascii ''used'' then Inr emoji_used
       else if s = ascii ''annulled'' then Inr emoji_annulled
       else if str_contains (ascii ''error'') s then Inr emoji_error
       else Inr emoji_ok)"

definition status_label :: "'f pyrt \<Rightarrow> 'f pyval \<Rightarrow> pyerror + 'f pyval" where
  "status_label rt status =
     bind_err (val_lower rt (py_or rt status (PStr []))) (\<lambda>s.
       if s = ascii ''used'' then Inr (PStr txt_used)
       else if s = ascii ''annulled'' then Inr (PStr txt_annulled)
       else if s = ascii ''sent'' then Inr (PStr txt_sent)
       else if s = ascii ''manual'' then Inr (PStr txt_manual)
       else if s = ascii ''send_error'' then Inr (PStr txt_send_error)
       else Inr (py_or rt status (PStr txt_dash)))"

text \<open>
  The loop of \<^verbatim>\<open>format_cert\<close> over the four timestamp keys: one line for each key whose
  stripped value is not empty.
\<close>

fun timestamp_lines :: "'f pyrt \<Rightarrow> 'f pydict \<Rightarrow> (pystr \<times> pystr) list \<Rightarrow> pyerror + pystr list" where
  "timestamp_lines rt cert [] = Inr []"
| "timestamp_lines rt cert ((k, title) # rest) =
     bind_err (val_strip (py_or rt (dict_get cert k) (PStr []))) (\<lambda>v.
     bind_err (timestamp_lines rt cert rest) (\<lambda>ls.
       Inr ((if v \<noteq> [] then [title @ ascii '': <code>'' @ esc_html rt (PStr v) @ ascii ''</code>'']
             else []) @ ls)))"

text \<open>The list \<^verbatim>\<open>lines\<close> of \<^verbatim>\<open>format_cert\<close> when it reaches its \<^verbatim>\<open>return\<close>.\<close>

definition cert_lines :: "'f pyrt \<Rightarrow> 'f pydict \<Rightarrow> pyerror + pystr list" where
  "cert_lines rt cert =
     (let gid = dict_get_default cert (ascii ''giftcert_id'') (PStr []);
          code = dict_get_default cert (ascii ''code'') (PStr []);
          amount = dict_get_default cert (ascii ''amount'') (PStr []);
          st = dict_get_default cert (ascii ''status'') (PStr []);
          src = py_or rt (dict_get cert (ascii ''source'')) (PStr txt_dash)
      in
      bind_err (status_emoji rt st) (\<lambda>emoji.
      bind_err (status_label rt st) (\<lambda>label.
      let lines0 =
        [txt_card_title,
         ascii ''ID: <b>'' @ esc_html rt gid @ ascii ''</b>'',
         txt_card_code @ esc_html rt code @ ascii ''</b>'',
         txt_card_amount @ esc_html rt amount @ ascii '' BYN</b>'',
         txt_card_status @ emoji @ ascii '' <b>'' @ esc_html rt label @ ascii ''</b>'',
         txt_card_source @ esc_html rt src @ ascii ''</code>'']
      in
      bind_err (val_strip (py_or rt (dict_get cert (ascii ''recipient_name'')) (PStr []))) (\<lambda>rn.
      bind_err (val_strip (py_or rt (dict_get cert (ascii ''recipient_email'')) (PStr []))) (\<lambda>reml.
      let lines1 = lines0 @
        (if rn \<noteq> [] \<or> reml \<noteq> []
         then [txt_card_recipient @ esc_html rt (PStr (if rn \<noteq> [] then rn else txt_dash))
                 @ txt_card_recipient_sep
                 @ esc_html rt (PStr (if reml \<noteq> [] then reml else txt_dash))]
         else [])
      in
      bind_err (val_concat (py_or rt (dict_get cert (ascii ''lastname'')) (PStr [])) (PStr [32])) (\<lambda>ln.
      bind_err (val_concat ln (py_or rt (dict_get cert (ascii ''firstname'')) (PStr []))) (\<lambda>full.
      bind_err (val_strip full) (\<lambda>donor.
      let lines2 = lines1 @
        (if donor \<noteq> [] then [txt_card_donor @ esc_html rt (PStr donor) @ ascii ''</b>''] else [])
      in
      bind_err (timestamp_lines rt cert
          [(ascii ''created_at'', txt_created), (ascii ''sent_at'', txt_sent),
           (ascii ''used_at'', txt_used), (ascii ''annulled_at'', txt_annulled)]) (\<lambda>ts.
      bind_err (py_int rt (py_or rt (dict_get cert (ascii ''order_id'')) (PInt 0))) (\<lambda>oid.
      Inr (lines2 @ ts @
        (if oid \<noteq> 0 then [txt_card_order @ str_of_int oid @ ascii ''</code>''] else []))))))))))))"

definition format_cert :: "'f pyrt \<Rightarrow> 'f pydict \<Rightarrow> pyerror + pystr" where
  "format_cert rt cert = bind_err (cert_lines rt cert) (\<lambda>lines. Inr (str_join [10] lines))"

section \<open>Telegram and the backend\<close>

text \<open>
  What a handler does to the outside is the list of its actions, in order: HTTP requests
  to the backend and calls of the Telegram API. Handlers are modelled on updates that
  carry a message (\<^verbatim>\<open>update.message\<close>, \<^verbatim>\<open>q.message\<close> exist), as their code assumes, and a
  Telegram call is taken to succeed. \<open>ReplyHtml\<close> is \<^verbatim>\<open>reply_text\<close> with
  \<^verbatim>\<open>parse_mode="HTML"\<close>; \<open>Answer text show_alert\<close> is \<^verbatim>\<open>q.answer\<close>.
\<close>

datatype button = CallbackButton pystr pystr | UrlButton pystr pystr

datatype markup = NoMarkup | ReplyKeyboardRemove | ReplyKeyboardMarkup "pystr list list"
  | InlineKeyboardMarkup "button list list"

datatype endpoint = API_CREATE | API_PDF | API_LIST | API_RESEND | API_ANNUL | API_DELETE
  | API_GET | API_USE

text \<open>
  \<^verbatim>\<open>requests.post(url, data=json.dumps(payload))\<close> and \<^verbatim>\<open>requests.get(url, params=params)\<close>
  (the token header is the same on every request and left out).
\<close>

datatype 'f request = RequestsPost endpoint "'f pydict" | RequestsGet endpoint "'f pydict"

text \<open>
  The outcome of a request: a \<^verbatim>\<open>requests.RequestException\<close> with its message, or a
  response with \<^verbatim>\<open>status_code\<close>, \<^verbatim>\<open>text\<close>, the value of \<^verbatim>\<open>json()\<close> (\<open>None\<close> when the body
  is not JSON) and \<^verbatim>\<open>content\<close>. \<^verbatim>\<open>safe_json\<close> is declared to return a dict, so a body is
  a JSON object or not JSON. The backend is any function from requests to outcomes.
\<close>

datatype 'f http_result = RequestException pystr
  | Response nat pystr "'f pydict option" "nat list"

type_synonym 'f backend = "'f request \<Rightarrow> 'f http_result"

datatype 'f action = Http "'f request"
  | ReplyText pystr markup
  | ReplyHtml pystr markup
  | ReplyDocument pystr "nat list" pystr
  | Answer "pystr option" bool

definition safe_json :: "nat \<Rightarrow> pystr \<Rightarrow> 'f pydict option \<Rightarrow> 'f pydict" where
  "safe_json status_code text json =
     (case json of
        Some d \<Rightarrow> d
      | None \<Rightarrow> [(ascii ''success'', PBool False),
                 (ascii ''error'', PStr (ascii ''Bad response: '' @ str_of_int (int status_code))),
                 (ascii ''raw'', PStr text)])"

definition network_error :: "pystr \<Rightarrow> 'f pydict" where
  "network_error e =
     [(ascii ''success'', PBool False), (ascii ''error'', PStr (ascii ''Network error: '' @ e))]"

text \<open>Each client function returns the request it sent (its action) and its result.\<close>

definition json_call :: "'f backend \<Rightarrow> 'f request \<Rightarrow> 'f action list \<times> 'f pydict" where
  "json_call http rq =
     ([Http rq],
      case http rq of
        RequestException e \<Rightarrow> network_error e
      | Response status_code text json content \<Rightarrow> safe_json status_code text json)"

definition api_create :: "'f backend \<Rightarrow> 'f pydict \<Rightarrow> 'f action list \<times> 'f pydict" where
  "api_create http payload = json_call http (RequestsPost API_CREATE payload)"

definition api_post :: "'f backend \<Rightarrow> endpoint \<Rightarrow> 'f pydict \<Rightarrow> 'f action list \<times> 'f pydict" where
  "api_post http url payload = json_call http (RequestsPost url payload)"

text \<open>The \<^verbatim>\<open>params\<close> of \<^verbatim>\<open>api_get\<close> and \<^verbatim>\<open>api_download_pdf\<close>: a key only for a truthy argument.\<close>

definition id_code_params :: "int \<Rightarrow> pystr \<Rightarrow> 'f pydict" where
  "id_code_params giftcert_id code =
     (if giftcert_id \<noteq> 0 then [(ascii ''giftcert_id'', PInt giftcert_id)] else [])
     @ (if code \<noteq> [] then [(ascii ''code'', PStr code)] else [])"

definition api_get :: "'f backend \<Rightarrow> int \<Rightarrow> pystr \<Rightarrow> 'f action list \<times> 'f pydict" where
  "api_get http giftcert_id code = json_call http (RequestsGet API_GET (id_code_params giftcert_id code))"

definition api_use :: "'f backend \<Rightarrow> int \<Rightarrow> pystr \<Rightarrow> pystr \<Rightarrow> 'f action list \<times> 'f pydict" where
  "api_use http giftcert_id code note =
     json_call http (RequestsPost API_USE ((ascii ''note'', PStr note) # id_code_params giftcert_id code))"

text \<open>
  \<^verbatim>\<open>api_download_pdf\<close> returns the bytes, or raises \<^verbatim>\<open>RuntimeError\<close> with a message
  (\<open>Inl\<close> the message).
\<close>

definition api_download_pdf :: "'f backend \<Rightarrow> int \<Rightarrow> pystr \<Rightarrow> 'f action list \<times> (pystr + nat list)" where
  "api_download_pdf http giftcert_id code =
     (let rq = RequestsGet API_PDF (id_code_params giftcert_id code)
      in ([Http rq],
          case http rq of
            RequestException e \<Rightarrow> Inl (ascii ''Network error: '' @ e)
          | Response status_code text json content \<Rightarrow>
              if status_code \<noteq> 200
              then Inl (ascii ''PDF download failed: '' @ str_of_int (int status_code) @ [32] @ take 200 text)
              else Inr content))"

section \<open>Certificate card and its keyboard\<close>

definition build_cert_keyboard :: "'f pyrt \<Rightarrow> 'f pydict \<Rightarrow> pyerror + markup" where
  "build_cert_keyboard rt cert =
     bind_err (py_int rt (py_or rt (dict_get cert (ascii ''giftcert_id'')) (PInt 0))) (\<lambda>gid.
     bind_err (val_lower rt (py_or rt (dict_get cert (ascii ''status'')) (PStr []))) (\<lambda>st.
       Inr (InlineKeyboardMarkup
         ([[CallbackButton btn_pdf (ascii ''pdf:'' @ str_of_int gid),
            CallbackButton btn_email (ascii ''email:'' @ str_of_int gid)]]
          @ (if st \<noteq> ascii ''used'' \<and> st \<noteq> ascii ''annulled''
             then [[CallbackButton btn_use (ascii ''use:'' @ str_of_int gid),
                    CallbackButton btn_annul (ascii ''annul:'' @ str_of_int gid)]]
             else [])
          @ [[CallbackButton btn_delete (ascii ''del:'' @ str_of_int gid)]]))))"

text \<open>
  A handler that is not part of the wizard returns its actions and \<open>None\<close>, or the actions
  it got to and the exception it raised.
\<close>

type_synonym 'f handled = "'f action list \<times> pyerror option"

text \<open>
  \<^verbatim>\<open>reply_text(format_cert(cert), reply_markup=build_cert_keyboard(cert), parse_mode="HTML")\<close>
  for a value \<open>cert\<close> that must be a dict for \<^verbatim>\<open>cert.get\<close> to exist.
\<close>

definition reply_card :: "'f pyrt \<Rightarrow> 'f pyval \<Rightarrow> 'f handled" where
  "reply_card rt cert =
     (case cert of
        PDict d \<Rightarrow>
          (case format_cert rt d of
             Inl e \<Rightarrow> ([], Some e)
           | Inr html \<Rightarrow>
               (case build_cert_keyboard rt d of
                  Inl e \<Rightarrow> ([], Some e)
                | Inr kb \<Rightarrow> ([ReplyHtml html kb], None)))
      | _ \<Rightarrow> ([], Some AttributeError))"

text \<open>\<^verbatim>\<open>resp.get("error") or resp.get("message") or resp.get("raw") or dflt\<close>\<close>

definition error_of :: "'f pyrt \<Rightarrow> 'f pydict \<Rightarrow> 'f pyval \<Rightarrow> 'f pyval" where
  "error_of rt resp dflt =
     py_or rt (dict_get resp (ascii ''error''))
       (py_or rt (dict_get resp (ascii ''message'')) (py_or rt (dict_get resp (ascii ''raw'')) dflt))"

definition fetch_cert_by_id :: "'f pyrt \<Rightarrow> 'f backend \<Rightarrow> int \<Rightarrow> 'f action list \<times> 'f pyval \<times> 'f pyval" where
  "fetch_cert_by_id rt http giftcert_id =
     (let (tr, resp) = api_get http giftcert_id []
      in if \<not> truthy rt (dict_get resp (ascii ''success''))
         then (tr, PNone, error_of rt resp (PStr txt_not_found_short))
         else (tr, py_or rt (dict_get resp (ascii ''cert'')) (PDict []), PStr []))"

definition show_cert_by_code :: "'f pyrt \<Rightarrow> 'f backend \<Rightarrow> pystr \<Rightarrow> 'f handled" where
  "show_cert_by_code rt http code =
     (let (tr, resp) = api_get http 0 code
      in if \<not> truthy rt (dict_get resp (ascii ''success''))
         then (let msg = error_of rt resp (PStr txt_not_found)
               in (tr @ [ReplyText (txt_not_found_head @ code @ [10, 10] @ take 300 (py_str rt msg))
                           NoMarkup], None))
         else (let (acts, err) = reply_card rt (py_or rt (dict_get resp (ascii ''cert'')) (PDict []))
               in (tr @ acts, err)))"

section \<open>Commands\<close>

text \<open>The configuration read from the environment, as far as the handlers use it.\<close>

record config =
  TG_ADMIN_IDS :: "int set"
  SHEET_URL :: pystr

text \<open>
  \<^verbatim>\<open>start\<close>: \<open>args\<close> is \<^verbatim>\<open>context.args\<close>, the words after the command (the deep-link
  payload is the first).
\<close>

text \<open>The code \<^verbatim>\<open>start\<close> extracts from a deep-link payload that is not empty.\<close>

definition deep_link_code :: "pystr \<Rightarrow> pystr" where
  "deep_link_code payload =
     (if take 3 payload = ascii ''gc_'' \<or> take 3 payload = ascii ''gc-''
      then only_digits (drop 3 payload) else only_digits payload)"

definition start :: "config \<Rightarrow> 'f pyrt \<Rightarrow> 'f backend \<Rightarrow> int option \<Rightarrow> pystr list \<Rightarrow> 'f handled" where
  "start cfg rt http effective_user args =
     (let payload = (case args of [] \<Rightarrow> [] | a # _ \<Rightarrow> str_strip a);
          code = deep_link_code payload
      in if payload \<noteq> [] \<and> code \<noteq> [] \<and> \<not> is_admin (TG_ADMIN_IDS cfg) effective_user
         then ([ReplyText NON_ADMIN_SCAN_TEXT NoMarkup], None)
         else if payload \<noteq> [] \<and> code \<noteq> []
         then show_cert_by_code rt http code
         else if \<not> is_admin (TG_ADMIN_IDS cfg) effective_user
         then ([ReplyText txt_access_restricted NoMarkup], None)
         else ([ReplyText txt_choose_action
                  (ReplyKeyboardMarkup ([[btn_create, btn_journal]]
                     @ (if SHEET_URL cfg \<noteq> [] then [[btn_sheet]] else [])))], None))"

definition scan_cmd :: "config \<Rightarrow> 'f pyrt \<Rightarrow> 'f backend \<Rightarrow> int option \<Rightarrow> pystr list \<Rightarrow> 'f handled" where
  "scan_cmd cfg rt http effective_user args =
     (case args of
        [] \<Rightarrow> ([ReplyText txt_scan_usage NoMarkup], None)
      | a # _ \<Rightarrow>
          (let code = only_digits a
           in if code = [] then ([ReplyText txt_need_numeric_code NoMarkup], None)
              else if \<not> is_admin (TG_ADMIN_IDS cfg) effective_user
              then ([ReplyText NON_ADMIN_SCAN_TEXT NoMarkup], None)
              else show_cert_by_code rt http code))"

section \<open>Creation wizard\<close>

text \<open>
  \<^verbatim>\<open>context.user_data\<close> is a dict; the handlers use five keys of it, each with values of
  one type, so it is a record of optional fields (\<open>None\<close>: the key is absent).
\<close>

record user_data =
  ud_amount :: "int option"
  ud_recipient_name :: "pystr option"
  ud_firstname :: "pystr option"
  ud_lastname :: "pystr option"
  ud_recipient_email :: "pystr option"

definition user_data_clear :: user_data where
  "user_data_clear = \<lparr>ud_amount = None, ud_recipient_name = None, ud_firstname = None,
     ud_lastname = None, ud_recipient_email = None\<rparr>"

text \<open>The conversation states; \<open>END\<close> is \<^verbatim>\<open>ConversationHandler.END\<close>.\<close>

datatype conv_state = AMOUNT | RECIPIENT_NAME | DONOR_FIRST | DONOR_LAST | RECIPIENT_EMAIL
  | ACTION | END

text \<open>
  A wizard handler returns its actions, the user data as it leaves them, and the state it
  returns or the exception it raises. \<open>text\<close> is \<^verbatim>\<open>update.message.text\<close>.
\<close>

type_synonym 'f stepped = "'f action list \<times> user_data \<times> (pyerror + conv_state)"

definition message_text :: "pystr option \<Rightarrow> pystr" where \<comment> \<open>\<^verbatim>\<open>(update.message.text or "").strip()\<close>\<close>
  "message_text text = str_strip (case text of None \<Rightarrow> [] | Some t \<Rightarrow> t)"

definition str_or :: "pystr \<Rightarrow> pystr \<Rightarrow> pystr" where \<comment> \<open>\<^verbatim>\<open>a or b\<close> on strings\<close>
  "str_or a b = (if a \<noteq> [] then a else b)"

definition get_str :: "pystr option \<Rightarrow> pystr" where \<comment> \<open>\<^verbatim>\<open>context.user_data.get(key, "")\<close>\<close>
  "get_str v = (case v of None \<Rightarrow> [] | Some s \<Rightarrow> s)"

definition new_cmd :: "config \<Rightarrow> int option \<Rightarrow> user_data \<Rightarrow> 'f stepped" where
  "new_cmd cfg effective_user ud =
     (if \<not> is_admin (TG_ADMIN_IDS cfg) effective_user
      then ([ReplyText txt_access_restricted NoMarkup], ud, Inr END)
      else ([ReplyText txt_enter_amount ReplyKeyboardRemove], user_data_clear, Inr AMOUNT))"

definition cancel :: "user_data \<Rightarrow> 'f stepped" where
  "cancel ud = ([ReplyText txt_cancelled ReplyKeyboardRemove], user_data_clear, Inr END)"

definition on_amount :: "pystr option \<Rightarrow> user_data \<Rightarrow> 'f stepped" where
  "on_amount text ud =
     (let s = message_text text
      in if \<not> str_isdigit s then ([ReplyText txt_need_number NoMarkup], ud, Inr AMOUNT)
         else (case py_int_str s of
                 Inl e \<Rightarrow> ([], ud, Inl e)
               | Inr n \<Rightarrow>
                   if n \<le> 0 then ([ReplyText txt_need_number NoMarkup], ud, Inr AMOUNT)
                   else ([ReplyText txt_ask_recipient_name NoMarkup],
                         ud\<lparr>ud_amount := Some n\<rparr>, Inr RECIPIENT_NAME)))"

definition on_recipient_name :: "pystr option \<Rightarrow> user_data \<Rightarrow> 'f stepped" where
  "on_recipient_name text ud =
     (let s = message_text text
      in ([ReplyText txt_ask_donor_first NoMarkup],
          ud\<lparr>ud_recipient_name := Some (if s = ascii ''-'' then [] else s)\<rparr>, Inr DONOR_FIRST))"

definition on_donor_first :: "pystr option \<Rightarrow> user_data \<Rightarrow> 'f stepped" where
  "on_donor_first text ud =
     (let s = message_text text
      in ([ReplyText txt_ask_donor_last NoMarkup],
          ud\<lparr>ud_firstname := Some (if s = ascii ''-'' then [] else s)\<rparr>, Inr DONOR_LAST))"

definition on_donor_last :: "pystr option \<Rightarrow> user_data \<Rightarrow> 'f stepped" where
  "on_donor_last text ud =
     (let s = message_text text
      in ([ReplyText txt_ask_recipient_email NoMarkup],
          ud\<lparr>ud_lastname := Some (if s = ascii ''-'' then [] else s)\<rparr>, Inr RECIPIENT_EMAIL))"

definition on_recipient_email :: "pystr option \<Rightarrow> user_data \<Rightarrow> 'f stepped" where
  "on_recipient_email text ud =
     (let s = message_text text;
          ud1 = ud\<lparr>ud_recipient_email := Some (if s = ascii ''-'' then [] else s)\<rparr>;
          amount = (case ud_amount ud1 of None \<Rightarrow> ascii ''None'' | Some n \<Rightarrow> str_of_int n);
          recipient_name = get_str (ud_recipient_name ud1);
          firstname = get_str (ud_firstname ud1);
          lastname = get_str (ud_lastname ud1);
          recipient_email = get_str (ud_recipient_email ud1);
          summary = txt_summary_amount @ amount
            @ txt_summary_recipient @ str_or recipient_name txt_dash
            @ txt_summary_donor @ str_or (str_strip (firstname @ [32] @ lastname)) txt_dash
            @ txt_summary_email @ str_or recipient_email txt_dash
            @ txt_summary_how
      in ([ReplyText summary (ReplyKeyboardMarkup [[btn_pdf_in_chat, btn_by_email], [btn_cancel]])],
          ud1, Inr ACTION))"

text \<open>The \<^verbatim>\<open>payload\<close> dict of \<^verbatim>\<open>on_action\<close>.\<close>

definition create_payload :: "user_data \<Rightarrow> bool \<Rightarrow> 'f pydict" where
  "create_payload ud send_email =
     [(ascii ''amount'', PInt (case ud_amount ud of None \<Rightarrow> 0 | Some n \<Rightarrow> n)),
      (ascii ''recipient_name'', PStr (get_str (ud_recipient_name ud))),
      (ascii ''firstname'', PStr (get_str (ud_firstname ud))),
      (ascii ''lastname'', PStr (get_str (ud_lastname ud))),
      (ascii ''recipient_email'', PStr (get_str (ud_recipient_email ud))),
      (ascii ''send_email'', PBool send_email)]"

definition on_action :: "config \<Rightarrow> 'f pyrt \<Rightarrow> 'f backend \<Rightarrow> pystr option \<Rightarrow> user_data \<Rightarrow> 'f stepped" where
  "on_action cfg rt http text ud =
     (let t = message_text text
      in if t = btn_cancel then cancel ud
         else
          (let send_email = (t = btn_by_email);
               payload = create_payload ud send_email
           in if send_email \<and> get_str (ud_recipient_email ud) = []
              then ([ReplyText txt_email_missing NoMarkup], ud, Inr ACTION)
              else
               (let (tr, resp) = api_create http payload
                in if \<not> truthy rt (dict_get resp (ascii ''success''))
                   then ([ReplyText txt_generating NoMarkup] @ tr
                         @ [ReplyText (txt_api_error @ py_str rt (dict_get resp (ascii ''error''))
                              @ [10] @ take 500 (py_str rt (dict_get_default resp (ascii ''raw'') (PStr []))))
                              NoMarkup],
                         ud, Inr END)
                   else
                    (case py_int rt (py_or rt (dict_get resp (ascii ''giftcert_id'')) (PInt 0)) of
                       Inl e \<Rightarrow> ([ReplyText txt_generating NoMarkup] @ tr, ud, Inl e)
                     | Inr giftcert_id \<Rightarrow>
                        (let code = dict_get_default resp (ascii ''code'') (PStr []);
                             amount = dict_get_default resp (ascii ''amount'')
                                        (dict_get payload (ascii ''amount''));
                             (tr2, pdf) = api_download_pdf http giftcert_id [];
                             delivery =
                               (case pdf of
                                  Inr pdf_bytes \<Rightarrow>
                                    ReplyDocument
                                      (ascii ''Certificate_'' @ py_str rt (py_or rt code (PInt giftcert_id))
                                         @ ascii ''.pdf'')
                                      pdf_bytes
                                      (txt_caption_code @ py_str rt code @ txt_caption_amount
                                         @ py_str rt amount @ txt_caption_source)
                                | Inl e \<Rightarrow> ReplyText (txt_created_no_pdf @ e) NoMarkup)
                         in ([ReplyText txt_generating NoMarkup] @ tr @ tr2 @ [delivery]
                             @ (if SHEET_URL cfg \<noteq> []
                                then [ReplyText txt_journal
                                        (InlineKeyboardMarkup [[UrlButton btn_journal_sheet (SHEET_URL cfg)]])]
                                else [])
                             @ [ReplyText txt_done ReplyKeyboardRemove],
                             ud, Inr END))))))"

section \<open>Action dispatcher\<close>

text \<open>
  \<^verbatim>\<open>action, gid_s = q.data.split(":", 1)\<close>: \<open>None\<close> when the data have no colon (the
  unpacking raises).
\<close>

definition split_once :: "pystr \<Rightarrow> (pystr \<times> pystr) option" where
  "split_once d =
     (if 58 \<in> set d then Some (takeWhile (\<lambda>c. c \<noteq> 58) d, tl (dropWhile (\<lambda>c. c \<noteq> 58) d))
      else None)"

text \<open>\<^verbatim>\<open>resp.get("error") or resp.get("message") or resp.get("raw","")\<close>, cut to 300 characters.\<close>

definition err_text :: "'f pyrt \<Rightarrow> 'f pydict \<Rightarrow> pystr" where
  "err_text rt resp =
     take 300 (py_str rt
       (py_or rt (dict_get resp (ascii ''error''))
          (py_or rt (dict_get resp (ascii ''message''))
             (dict_get_default resp (ascii ''raw'') (PStr [])))))"

text \<open>The part of \<^verbatim>\<open>on_callback\<close> after the token is parsed: one branch for each verb.\<close>

definition dispatch :: "'f pyrt \<Rightarrow> 'f backend \<Rightarrow> pystr \<Rightarrow> int \<Rightarrow> 'f handled" where
  "dispatch rt http action gid =
     (if action = ascii ''del'' then
        ([Answer None False,
          ReplyText (txt_delete_question @ str_of_int gid @ txt_code_released)
            (InlineKeyboardMarkup
               [[CallbackButton btn_yes_delete (ascii ''del_yes:'' @ str_of_int gid),
                 CallbackButton btn_undo (ascii ''del_no:'' @ str_of_int gid)]])], None)
      else if action = ascii ''del_no'' then ([Answer (Some txt_not_deleting) False], None)
      else if action = ascii ''del_yes'' then
        (let (tr, resp) = api_post http API_DELETE
                            [(ascii ''giftcert_id'', PInt gid), (ascii ''confirm'', PBool True)]
         in ([Answer (Some txt_deleting) False] @ tr
             @ [if \<not> truthy rt (dict_get resp (ascii ''success''))
                then ReplyText (txt_delete_error @ err_text rt resp) NoMarkup
                else ReplyText (txt_deleted @ str_of_int gid @ txt_deleted_tail) NoMarkup], None))
      else if action = ascii ''pdf'' then
        (let (tr, pdf) = api_download_pdf http gid []
         in ([Answer (Some txt_preparing_pdf) False] @ tr
             @ [case pdf of
                  Inr pdf_bytes \<Rightarrow>
                    ReplyDocument (ascii ''Certificate_'' @ str_of_int gid @ ascii ''.pdf'') pdf_bytes
                      (txt_pdf_caption @ str_of_int gid)
                | Inl e \<Rightarrow> ReplyText (txt_pdf_error @ e) NoMarkup], None))
      else if action = ascii ''email'' then
        (let (tr, resp) = api_post http API_RESEND [(ascii ''giftcert_id'', PInt gid)]
         in ([Answer (Some txt_sending_email) False] @ tr
             @ [if \<not> truthy rt (dict_get resp (ascii ''success''))
                then ReplyText (txt_send_failed @ err_text rt resp) NoMarkup
                else ReplyText (txt_email_sent @ str_of_int gid @ ascii '')'') NoMarkup], None))
      else if action = ascii ''use'' then
        (let (tr, resp) = api_use http gid [] txt_used_note
         in if \<not> truthy rt (dict_get resp (ascii ''success''))
            then ([Answer (Some txt_marking_used) False] @ tr
                  @ [ReplyText (txt_use_failed @ err_text rt resp) NoMarkup], None)
            else
             (let (tr2, cert, msg) = fetch_cert_by_id rt http gid;
                  (acts, err) = (if truthy rt cert then reply_card rt cert
                                 else ([ReplyText txt_done_ok NoMarkup], None))
              in ([Answer (Some txt_marking_used) False] @ tr @ tr2 @ acts, err)))
      else if action = ascii ''annul'' then
        (let (tr, resp) = api_post http API_ANNUL
                            [(ascii ''giftcert_id'', PInt gid), (ascii ''reason'', PStr txt_annul_reason)]
         in if \<not> truthy rt (dict_get resp (ascii ''success''))
            then ([Answer (Some txt_annulling) False] @ tr
                  @ [ReplyText (txt_annul_failed @ err_text rt resp) NoMarkup], None)
            else
             (let (tr2, cert, msg) = fetch_cert_by_id rt http gid;
                  (acts, err) = (if truthy rt cert then reply_card rt cert
                                 else ([ReplyText (txt_annulled_ok @ str_of_int gid @ ascii '')'') NoMarkup],
                                       None))
              in ([Answer (Some txt_annulling) False] @ tr @ tr2 @ acts, err)))
      else ([Answer (Some txt_unknown_action) True], None))"

text \<open>
  \<^verbatim>\<open>on_callback\<close>: \<open>callback_query\<close> is \<open>None\<close> when the update has no callback query,
  and holds the query's \<^verbatim>\<open>data\<close> (which may be \<open>None\<close>) otherwise.
\<close>

definition on_callback :: "config \<Rightarrow> 'f pyrt \<Rightarrow> 'f backend \<Rightarrow> int option \<Rightarrow> pystr option option
    \<Rightarrow> 'f handled" where
  "on_callback cfg rt http effective_user callback_query =
     (if \<not> is_admin (TG_ADMIN_IDS cfg) effective_user
      then ((case callback_query of None \<Rightarrow> [] | Some q \<Rightarrow> [Answer (Some txt_access_restricted) True]),
            None)
      else
       (case callback_query of
          None \<Rightarrow> ([], None)
        | Some None \<Rightarrow> ([], None)
        | Some (Some d) \<Rightarrow>
            if d = [] then ([], None)
            else
             (case split_once d of
                None \<Rightarrow> ([Answer (Some txt_bad_command) True], None)
              | Some (action, gid_s) \<Rightarrow>
                  (case py_int_str gid_s of
                     Inl e \<Rightarrow> ([Answer (Some txt_bad_command) True], None)
                   | Inr gid \<Rightarrow> dispatch rt http action gid))))"

section \<open>Other commands\<close>

definition api_list :: "'f backend \<Rightarrow> 'f pydict \<Rightarrow> 'f action list \<times> 'f pydict" where
  "api_list http params = json_call http (RequestsGet API_LIST params)"

text \<open>The values a \<^verbatim>\<open>for\<close> loop over \<open>v\<close> visits; a number, a Boolean or \<open>None\<close> is not iterable.\<close>

definition iter_values :: "'f pyval \<Rightarrow> pyerror + 'f pyval list" where
  "iter_values v =
     (case v of
        PList xs \<Rightarrow> Inr xs
      | PDict kvs \<Rightarrow> Inr (map (\<lambda>(k, x). PStr k) kvs)
      | PStr s \<Rightarrow> Inr (map (\<lambda>c. PStr [c]) s)
      | _ \<Rightarrow> Inl TypeError)"

text \<open>The loop of \<^verbatim>\<open>journal_cmd\<close> over the rows: it stops at the first card that raises.\<close>

fun reply_cards :: "'f pyrt \<Rightarrow> 'f pyval list \<Rightarrow> 'f handled" where
  "reply_cards rt [] = ([], None)"
| "reply_cards rt (r # rows) =
     (case reply_card rt r of
        (acts, Some e) \<Rightarrow> (acts, Some e)
      | (acts, None) \<Rightarrow> (let (acts', err) = reply_cards rt rows in (acts @ acts', err)))"

definition journal_cmd :: "config \<Rightarrow> 'f pyrt \<Rightarrow> 'f backend \<Rightarrow> int option \<Rightarrow> 'f handled" where
  "journal_cmd cfg rt http effective_user =
     (if \<not> is_admin (TG_ADMIN_IDS cfg) effective_user
      then ([ReplyText txt_access_restricted NoMarkup], None)
      else
       (let (tr, resp) = api_list http [(ascii ''start'', PInt 0), (ascii ''limit'', PInt 10)]
        in if \<not> truthy rt (dict_get resp (ascii ''success''))
           then (tr @ [ReplyText (txt_api_error @ py_str rt (dict_get resp (ascii ''error''))) NoMarkup],
                 None)
           else
            (let rows = dict_get_default resp (ascii ''rows'') (PList [])
             in if \<not> truthy rt rows then (tr @ [ReplyText txt_journal_empty NoMarkup], None)
                else
                 (case iter_values rows of
                    Inl e \<Rightarrow> (tr @ [ReplyText txt_latest NoMarkup], Some e)
                  | Inr rs \<Rightarrow>
                      (case reply_cards rt rs of
                         (acts, Some e) \<Rightarrow> (tr @ [ReplyText txt_latest NoMarkup] @ acts, Some e)
                       | (acts, None) \<Rightarrow>
                           (tr @ [ReplyText txt_latest NoMarkup] @ acts
                            @ (if SHEET_URL cfg \<noteq> []
                               then [ReplyText txt_more
                                       (InlineKeyboardMarkup [[UrlButton btn_sheet (SHEET_URL cfg)]])]
                               else []),
                            None))))))"

definition sheet_cmd :: "config \<Rightarrow> int option \<Rightarrow> 'f handled" where
  "sheet_cmd cfg effective_user =
     (if \<not> is_admin (TG_ADMIN_IDS cfg) effective_user
      then ([ReplyText txt_access_restricted NoMarkup], None)
      else if SHEET_URL cfg = [] then ([ReplyText txt_no_sheet NoMarkup], None)
      else ([ReplyText txt_journal_of_certs
               (InlineKeyboardMarkup [[UrlButton btn_open_journal (SHEET_URL cfg)]])], None))"

definition pdf_cmd :: "config \<Rightarrow> 'f backend \<Rightarrow> int option \<Rightarrow> pystr list \<Rightarrow> 'f handled" where
  "pdf_cmd cfg http effective_user args =
     (if \<not> is_admin (TG_ADMIN_IDS cfg) effective_user
      then ([ReplyText txt_access_restricted NoMarkup], None)
      else
       (case args of
          [] \<Rightarrow> ([ReplyText txt_pdf_usage NoMarkup], None)
        | a # _ \<Rightarrow>
            (let code = only_digits a
             in if code = [] then ([ReplyText txt_need_numeric_code NoMarkup], None)
                else
                 (let (tr, pdf) = api_download_pdf http 0 code
                  in (tr @ [case pdf of
                              Inr pdf_bytes \<Rightarrow>
                                ReplyDocument (ascii ''Certificate_'' @ code @ ascii ''.pdf'') pdf_bytes
                                  (txt_pdf_by_code @ code)
                            | Inl e \<Rightarrow> ReplyText (txt_error @ e) NoMarkup], None)))))"

section \<open>The handlers as \<^verbatim>\<open>main\<close> registers them\<close>

text \<open>
  An incoming update of one caller in one chat: a command with its lower-cased name and
  its arguments, a message with a text that is not a command, or a pressed inline button
  with its data.
\<close>

datatype incoming = Command pystr "pystr list" | TextMessage pystr | CallbackQuery "pystr option"

text \<open>
  \<^verbatim>\<open>filters.Regex(r"^...$")\<close> searches with \<^verbatim>\<open>re.search\<close>, where \<^verbatim>\<open>$\<close> also matches
  before a final newline.
\<close>

definition regex_whole :: "pystr \<Rightarrow> pystr \<Rightarrow> bool" where
  "regex_whole lit t = (t = lit \<or> t = lit @ [10])"

definition state_handler :: "config \<Rightarrow> 'f pyrt \<Rightarrow> 'f backend \<Rightarrow> conv_state \<Rightarrow> pystr option
    \<Rightarrow> user_data \<Rightarrow> 'f stepped" where
  "state_handler cfg rt http st text ud =
     (case st of
        AMOUNT \<Rightarrow> on_amount text ud
      | RECIPIENT_NAME \<Rightarrow> on_recipient_name text ud
      | DONOR_FIRST \<Rightarrow> on_donor_first text ud
      | DONOR_LAST \<Rightarrow> on_donor_last text ud
      | RECIPIENT_EMAIL \<Rightarrow> on_recipient_email text ud
      | ACTION \<Rightarrow> on_action cfg rt http text ud
      | END \<Rightarrow> ([], ud, Inr END))"

text \<open>
  What the conversation keeps of a handler's result: the state it returned, or the old
  state when it raised (the new state is only stored when the handler returns).
\<close>

definition stored :: "conv_state \<Rightarrow> 'f stepped \<Rightarrow> 'f action list \<times> conv_state \<times> user_data" where
  "stored st r =
     (case r of (acts, ud, Inr st') \<Rightarrow> (acts, st', ud) | (acts, ud, Inl e) \<Rightarrow> (acts, st, ud))"

definition is_entry :: "incoming \<Rightarrow> bool" where
  "is_entry upd =
     (case upd of
        Command c args \<Rightarrow> c = ascii ''new''
      | TextMessage t \<Rightarrow> regex_whole btn_create t
      | CallbackQuery d \<Rightarrow> False)"

text \<open>
  The \<^verbatim>\<open>ConversationHandler\<close>: with \<^verbatim>\<open>allow_reentry\<close> the entry points are tried first in
  every state, then the handler of the state (\<^verbatim>\<open>filters.TEXT & ~filters.COMMAND\<close>: any
  text that is not empty), then the fallbacks. \<open>None\<close>: the update is not for the
  conversation.
\<close>

definition conversation :: "config \<Rightarrow> 'f pyrt \<Rightarrow> 'f backend \<Rightarrow> int option
    \<Rightarrow> conv_state \<times> user_data \<Rightarrow> incoming \<Rightarrow> ('f action list \<times> conv_state \<times> user_data) option" where
  "conversation cfg rt http effective_user session upd =
     (let (st, ud) = session
      in if is_entry upd then Some (stored st (new_cmd cfg effective_user ud))
         else if st = END then None
         else (case upd of
                 TextMessage t \<Rightarrow>
                   if t \<noteq> [] then Some (stored st (state_handler cfg rt http st (Some t) ud))
                   else if regex_whole btn_cancel t then Some (stored st (cancel ud))
                   else None
               | Command c args \<Rightarrow>
                   if c = ascii ''cancel'' then Some (stored st (cancel ud)) else None
               | CallbackQuery d \<Rightarrow> None))"

text \<open>
  \<^verbatim>\<open>menu_router\<close> calls the handlers itself, so the state \<^verbatim>\<open>new_cmd\<close> returns is dropped:
  only its actions and what it did to the user data remain.
\<close>

definition menu_router :: "config \<Rightarrow> 'f pyrt \<Rightarrow> 'f backend \<Rightarrow> int option \<Rightarrow> pystr option
    \<Rightarrow> user_data \<Rightarrow> 'f action list \<times> user_data" where
  "menu_router cfg rt http effective_user text ud =
     (let t = message_text text
      in if t = btn_create
         then (case (new_cmd cfg effective_user ud :: 'f stepped) of (acts, ud', r) \<Rightarrow> (acts, ud'))
         else if t = btn_journal then (fst (journal_cmd cfg rt http effective_user), ud)
         else if t = btn_sheet \<and> SHEET_URL cfg \<noteq> [] then (fst (sheet_cmd cfg effective_user :: 'f handled), ud)
         else ([], ud))"

text \<open>
  One update through the handlers of group 0, in the order \<^verbatim>\<open>main\<close> adds them: the first
  handler that accepts the update runs. An exception of a handler goes to
  \<^verbatim>\<open>error_handler\<close>, which logs it.
\<close>

definition application :: "config \<Rightarrow> 'f pyrt \<Rightarrow> 'f backend \<Rightarrow> int option
    \<Rightarrow> conv_state \<times> user_data \<Rightarrow> incoming \<Rightarrow> 'f action list \<times> conv_state \<times> user_data" where
  "application cfg rt http effective_user session upd =
     (let (st, ud) = session;
          plain = (case upd of
              Command c args \<Rightarrow>
                if c = ascii ''start'' then Some (fst (start cfg rt http effective_user args))
                else if c = ascii ''journal'' then Some (fst (journal_cmd cfg rt http effective_user))
                else if c = ascii ''sheet'' then Some (fst (sheet_cmd cfg effective_user :: 'f handled))
                else if c = ascii ''pdf'' then Some (fst (pdf_cmd cfg http effective_user args))
                else if c = ascii ''scan'' then Some (fst (scan_cmd cfg rt http effective_user args))
                else None
            | CallbackQuery d \<Rightarrow> Some (fst (on_callback cfg rt http effective_user (Some d)))
            | TextMessage t \<Rightarrow> None)
      in case plain of
           Some acts \<Rightarrow> (acts, st, ud)
         | None \<Rightarrow>
            (case conversation cfg rt http effective_user session upd of
               Some r \<Rightarrow> r
             | None \<Rightarrow>
                (case upd of
                   TextMessage t \<Rightarrow>
                     if t \<noteq> []
                     then (case menu_router cfg rt http effective_user (Some t) ud of
                             (acts, ud') \<Rightarrow> (acts, st, ud'))
                     else ([], st, ud)
                 | _ \<Rightarrow> ([], st, ud))))"

text \<open>
  A run of the application from a session: the actions of all steps, and the session at
  the end. The backend may answer differently at each step.
\<close>

fun run :: "config \<Rightarrow> 'f pyrt \<Rightarrow> int option \<Rightarrow> conv_state \<times> user_data
    \<Rightarrow> ('f backend \<times> incoming) list \<Rightarrow> 'f action list \<times> conv_state \<times> user_data" where
  "run cfg rt effective_user session [] = ([], session)"
| "run cfg rt effective_user session ((http, upd) # rest) =
     (let (acts, session') = application cfg rt http effective_user session upd;
          (acts', session'') = run cfg rt effective_user session' rest
      in (acts @ acts', session''))"

section \<open>Observations on what a handler did\<close>

text \<open>The HTTP requests among a handler's actions, in order.\<close>

fun requests_of :: "'f action list \<Rightarrow> 'f request list" where
  "requests_of [] = []"
| "requests_of (Http rq # acts) = rq # requests_of acts"
| "requests_of (a # acts) = requests_of acts"

text \<open>The payloads of the creation calls among a handler's actions.\<close>

fun create_calls :: "'f action list \<Rightarrow> 'f pydict list" where
  "create_calls [] = []"
| "create_calls (Http (RequestsPost API_CREATE payload) # acts) = payload # create_calls acts"
| "create_calls (a # acts) = create_calls acts"

text \<open>
  The markup of an HTML text: what is left when every character outside a tag is dropped.
  The flag says whether the scan is inside a tag.
\<close>

fun tags_of :: "bool \<Rightarrow> pystr \<Rightarrow> pystr" where
  "tags_of inside [] = []"
| "tags_of inside (c # cs) =
     (if c = 60 then c # tags_of True cs
      else if c = 62 then c # tags_of False cs
      else if inside then c # tags_of inside cs
      else tags_of inside cs)"

text \<open>Whether the scan of \<open>tags_of\<close> is inside a tag after a text.\<close>

fun ends_inside :: "bool \<Rightarrow> pystr \<Rightarrow> bool" where
  "ends_inside inside [] = inside"
| "ends_inside inside (c # cs) =
     ends_inside (if c = 60 then True else if c = 62 then False else inside) cs"

text \<open>
  A line of the card as the template has it: text without angle brackets around one
  \<^verbatim>\<open><b>\<close> or \<^verbatim>\<open><code>\<close> element whose content has no angle bracket either.
\<close>

definition template_line :: "pystr \<Rightarrow> bool" where
  "template_line l =
     ((tags_of False l = ascii ''<b></b>'' \<or> tags_of False l = ascii ''<code></code>'')
      \<and> \<not> ends_inside False l)"

text \<open>
  The wizard's invariant on a session: an amount that is set is positive, and it is set
  in every state after \<open>AMOUNT\<close>.
\<close>

definition amount_ok :: "conv_state \<times> user_data \<Rightarrow> bool" where
  "amount_ok session =
     (case session of
        (st, ud) \<Rightarrow>
          (case ud_amount ud of None \<Rightarrow> st = AMOUNT \<or> st = END | Some n \<Rightarrow> 0 < n))"

text \<open>A creation payload whose amount is a positive integer.\<close>

definition positive_amount :: "'f pydict \<Rightarrow> bool" where
  "positive_amount payload =
     (case map_of payload (ascii ''amount'') of Some (PInt n) \<Rightarrow> 0 < n | _ \<Rightarrow> False)"

section \<open>Sample data\<close>

text \<open>
  An interpreter for values without floating-point numbers, with a \<^verbatim>\<open>repr\<close> that only
  adds quotes and a case mapping that leaves every character alone; a backend that is
  down; one that creates certificate 17 and then fails to deliver its PDF; and a
  configuration whose only admin is user 1.
\<close>

definition rt_plain :: "unit pyrt" where
  "rt_plain = \<lparr>float_repr = (\<lambda>f. []), float_nonzero = (\<lambda>f. False),
     float_int = (\<lambda>f. Inl ValueError), str_repr = (\<lambda>s. [39] @ s @ [39]),
     str_lower = (\<lambda>s. s)\<rparr>"

definition backend_down :: "unit backend" where
  "backend_down rq = RequestException (ascii ''down'')"

definition backend_no_pdf :: "unit backend" where
  "backend_no_pdf rq =
     (case rq of
        RequestsPost url payload \<Rightarrow>
          Response 200 [] (Some [(ascii ''success'', PBool True), (ascii ''giftcert_id'', PInt 17),
                                 (ascii ''code'', PStr (ascii ''004521''))]) []
      | RequestsGet url params \<Rightarrow> Response 500 (ascii ''no pdf'') None [])"

definition cfg_one_admin :: config where
  "cfg_one_admin = \<lparr>TG_ADMIN_IDS = {1}, SHEET_URL = []\<rparr>"

definition ud_seventy :: user_data where
  "ud_seventy = \<lparr>ud_amount = Some 70, ud_recipient_name = Some [], ud_firstname = Some [],
     ud_lastname = Some [], ud_recipient_email = Some []\<rparr>"

section \<open>Lemmas on characters, strings and integers\<close>

lemma decimal_coarse:
  "py_isdecimal c \<Longrightarrow> (48 \<le> c \<and> c \<le> 57) \<or> (1632 \<le> c \<and> c \<le> 4249) \<or> (6112 \<le> c \<and> c \<le> 7257) \<or> 42528 \<le> c"
  unfolding py_isdecimal_def in_ranges_def decimal_ranges_def
  by (simp only: list_ex_Nil_iff list_ex_Cons_iff case_prod_conv) (elim disjE FalseE; linarith)

lemma space_coarse:
  "py_isspace c \<Longrightarrow> c \<le> 32 \<or> c = 133 \<or> c = 160 \<or> c = 5760 \<or> (8192 \<le> c \<and> c \<le> 8287) \<or> c = 12288"
  unfolding py_isspace_def in_ranges_def space_ranges_def
  by (simp only: list_ex_Nil_iff list_ex_Cons_iff case_prod_conv) (elim disjE FalseE; linarith)

lemma ascii_digit_decimal: "48 \<le> c \<Longrightarrow> c \<le> 57 \<Longrightarrow> py_isdecimal c"
  by (simp add: py_isdecimal_def in_ranges_def decimal_ranges_def)

lemma ascii_digit_value: "48 \<le> c \<Longrightarrow> c \<le> 57 \<Longrightarrow> decimal_value c = c - 48"
  by (simp add: decimal_value_def decimal_ranges_def)

lemma space_not_decimal: "py_isspace c \<Longrightarrow> \<not> py_isdecimal c"
  using decimal_coarse [of c] space_coarse [of c] by linarith

lemma decimal_not_int_space: "py_isdecimal c \<Longrightarrow> \<not> int_isspace c"
  using decimal_coarse [of c] space_not_decimal [of c] by (auto simp: int_isspace_def)

lemma decimal_not_sign: "py_isdecimal c \<Longrightarrow> c \<noteq> 45 \<and> c \<noteq> 43 \<and> c \<noteq> 95"
  using decimal_coarse [of c] by linarith

lemma decimal_isdigit: "py_isdecimal c \<Longrightarrow> py_isdigit c"
  by (simp add: py_isdigit_def)

lemma strip_generic:
  "s = [] \<or> (\<not> P (hd s) \<and> \<not> P (last s)) \<Longrightarrow> rev (dropWhile P (rev (dropWhile P s))) = s"
proof (cases s)
  case Nil then show ?thesis by simp
next
  case (Cons x xs)
  assume "s = [] \<or> (\<not> P (hd s) \<and> \<not> P (last s))"
  with Cons have h: "\<not> P x" and l: "\<not> P (last (x # xs))" by auto
  from h have a: "dropWhile P (x # xs) = x # xs" by simp
  have "rev (x # xs) = last (x # xs) # rev (butlast (x # xs))"
    by (metis append_butlast_last_id list.distinct(1) rev.simps(2) rev_rev_ident rev_append singleton_rev_conv append_Cons append_Nil)
  with l have "dropWhile P (rev (x # xs)) = rev (x # xs)" by simp
  with a Cons show ?thesis by simp
qed

lemma str_strip_id: "s = [] \<or> (\<not> py_isspace (hd s) \<and> \<not> py_isspace (last s)) \<Longrightarrow> str_strip s = s"
  unfolding str_strip_def by (rule strip_generic)

lemma int_strip_id: "s = [] \<or> (\<not> int_isspace (hd s) \<and> \<not> int_isspace (last s)) \<Longrightarrow> int_strip s = s"
  unfolding int_strip_def by (rule strip_generic)

lemma no_double_underscore_free: "95 \<notin> set b \<Longrightarrow> no_double_underscore b"
  by (induction b rule: no_double_underscore.induct) auto

lemma decimal_string_valid:
  assumes "s \<noteq> []" "list_all py_isdecimal s"
  shows "valid_digits s"
proof -
  from assms(2) have all: "\<forall>c\<in>set s. py_isdecimal c" by (simp add: list_all_iff)
  then have no95: "95 \<notin> set s" using decimal_not_sign by blast
  from assms(1) have "hd s \<in> set s" "last s \<in> set s" by simp_all
  with no95 have "hd s \<noteq> 95" "last s \<noteq> 95" by metis+
  with assms all no95 show ?thesis
    by (simp add: valid_digits_def list_all_iff no_double_underscore_free)
qed

lemma decimal_string_int:
  assumes "s \<noteq> []" "list_all py_isdecimal s"
  shows "py_int_str s = Inr (int (digits_value s))"
proof -
  from assms(2) have all: "\<forall>c\<in>set s. py_isdecimal c" by (simp add: list_all_iff)
  from assms(1) have m: "hd s \<in> set s" "last s \<in> set s" by simp_all
  with all have d: "py_isdecimal (hd s)" "py_isdecimal (last s)" by blast+
  then have "int_strip s = s" by (intro int_strip_id) (simp add: decimal_not_int_space)
  moreover from d have "hd s \<noteq> 45" "hd s \<noteq> 43" using decimal_not_sign by blast+
  ultimately show ?thesis
    using decimal_string_valid [OF assms] by (simp add: py_int_str_def Let_def)
qed

lemma nat_digits_ascii: "c \<in> set (nat_digits n) \<Longrightarrow> 48 \<le> c \<and> c \<le> 57"
proof (induction n arbitrary: c rule: nat_digits.induct)
  case (1 n)
  show ?case
  proof (cases "n < 10")
    case True
    with "1.prems" show ?thesis by (simp add: nat_digits.simps [of n])
  next
    case False
    with "1.prems" have "c \<in> set (nat_digits (n div 10)) \<or> c = 48 + n mod 10"
      by (auto simp: nat_digits.simps [of n])
    with "1.IH" False show ?thesis by (auto simp: less_Suc_eq_le) 
  qed
qed

lemma nat_digits_nonempty: "nat_digits n \<noteq> []"
  by (simp add: nat_digits.simps [of n])

lemma digits_value_snoc: "c \<noteq> 95 \<Longrightarrow> digits_value (xs @ [c]) = 10 * digits_value xs + decimal_value c"
  by (simp add: digits_value_def)

lemma digits_value_nat_digits: "digits_value (nat_digits n) = n"
proof (induction n rule: nat_digits.induct)
  case (1 n)
  show ?case
  proof (cases "n < 10")
    case True
    then show ?thesis
      by (simp add: nat_digits.simps [of n] digits_value_def ascii_digit_value)
  next
    case False
    have "decimal_value (48 + n mod 10) = n mod 10" by (simp add: ascii_digit_value)
    with False "1.IH" show ?thesis
      by (simp add: nat_digits.simps [of n] digits_value_snoc)
  qed
qed

lemma nat_digits_decimal: "list_all py_isdecimal (nat_digits n)"
  using nat_digits_ascii by (auto simp: list_all_iff intro: ascii_digit_decimal)

lemma py_int_str_nat_digits: "py_int_str (nat_digits n) = Inr (int n)"
  by (simp add: decimal_string_int nat_digits_nonempty nat_digits_decimal digits_value_nat_digits)

lemma py_int_str_of_int: "py_int_str (str_of_int i) = Inr i"
proof (cases "i < 0")
  case False
  then show ?thesis by (simp add: str_of_int_def py_int_str_nat_digits)
next
  case True
  let ?d = "nat_digits (nat (- i))"
  have ne: "?d \<noteq> []" by (rule nat_digits_nonempty)
  have "last (45 # ?d) = last ?d" using ne by simp
  moreover have "last ?d \<in> set ?d" using ne by simp
  ultimately have "\<not> int_isspace (last (45 # ?d))"
    using nat_digits_ascii [of "last ?d" "nat (- i)"] by (simp add: int_isspace_def)
  moreover have "\<not> int_isspace 45" by (simp add: int_isspace_def py_isspace_def in_ranges_def space_ranges_def)
  ultimately have "int_strip (45 # ?d) = 45 # ?d" by (intro int_strip_id) simp
  moreover have "valid_digits ?d" by (rule decimal_string_valid [OF ne nat_digits_decimal])
  ultimately show ?thesis using True
    by (simp add: str_of_int_def py_int_str_def Let_def digits_value_nat_digits)
qed

lemma str_of_int_no_colon: "58 \<notin> set (str_of_int i)"
  using nat_digits_ascii [of 58] by (auto simp: str_of_int_def split: if_splits)

lemma str_of_int_no_angle: "c \<in> set (str_of_int i) \<Longrightarrow> c \<noteq> 60 \<and> c \<noteq> 62"
  using nat_digits_ascii [of c] by (auto simp: str_of_int_def split: if_splits)

section \<open>Identity gate: properties\<close>

text \<open>
  C9. \<^verbatim>\<open>is_admin\<close> is a total function of the configured set and the caller: with an empty
  set it is true for every caller (fail-open); otherwise it is true exactly for the
  members of the set, an update without a user counting as user 0.
\<close>

theorem is_admin_fail_open_or_member:
  "is_admin {} effective_user = True
   \<and> is_admin ids (Some uid) = (ids = {} \<or> uid \<in> ids)
   \<and> is_admin ids None = (ids = {} \<or> 0 \<in> ids)"
  by (simp add: is_admin_def)

section \<open>Scan router: properties\<close>

lemma deep_link_code_Nil: "deep_link_code [] = []"
  by (simp add: deep_link_code_def only_digits_def)

text \<open>
  C1. A caller who is not an admin and presents a scan code whose digits are not empty,
  through \<^verbatim>\<open>/scan\<close> or through a deep-link payload of \<^verbatim>\<open>/start\<close>, gets exactly one
  reply, the fixed invitation text. The result names neither the backend nor the
  interpreter: no request is sent (so \<^verbatim>\<open>api_get\<close> is never called), and the reply is the
  same whatever the backend would have answered about the code.
\<close>

theorem anonymous_scan_gets_promo_only:
  assumes "\<not> is_admin (TG_ADMIN_IDS cfg) effective_user"
  shows "(only_digits a \<noteq> [] \<longrightarrow>
            scan_cmd cfg rt http effective_user (a # args) = ([ReplyText NON_ADMIN_SCAN_TEXT NoMarkup], None))
       \<and> (deep_link_code (str_strip a) \<noteq> [] \<longrightarrow>
            start cfg rt http effective_user (a # args) = ([ReplyText NON_ADMIN_SCAN_TEXT NoMarkup], None))"
proof (intro conjI impI)
  assume "only_digits a \<noteq> []"
  with assms show "scan_cmd cfg rt http effective_user (a # args) = ([ReplyText NON_ADMIN_SCAN_TEXT NoMarkup], None)"
    by (simp add: scan_cmd_def Let_def)
next
  assume c: "deep_link_code (str_strip a) \<noteq> []"
  then have "str_strip a \<noteq> []" using deep_link_code_Nil by auto
  with c assms show "start cfg rt http effective_user (a # args) = ([ReplyText NON_ADMIN_SCAN_TEXT NoMarkup], None)"
    by (simp add: start_def Let_def)
qed

lemma isdigit_48_57: "48 \<le> c \<Longrightarrow> c \<le> 57 \<Longrightarrow> py_isdigit c"
  by (simp add: decimal_isdigit ascii_digit_decimal)

theorem anonymous_scan_witness:
  "\<not> is_admin (TG_ADMIN_IDS cfg_one_admin) (Some 5)
   \<and> only_digits (ascii ''004521'') = ascii ''004521''
   \<and> deep_link_code (str_strip (ascii ''gc_004521'')) = ascii ''004521''
   \<and> scan_cmd cfg_one_admin rt_plain backend_no_pdf (Some 5) [ascii ''004521'']
        = ([ReplyText NON_ADMIN_SCAN_TEXT NoMarkup], None)
   \<and> start cfg_one_admin rt_plain backend_no_pdf (Some 5) [ascii ''gc_004521'']
        = ([ReplyText NON_ADMIN_SCAN_TEXT NoMarkup], None)"
proof -
  have a: "\<not> is_admin (TG_ADMIN_IDS cfg_one_admin) (Some 5)"
    by (simp add: is_admin_def cfg_one_admin_def)
  have d: "only_digits (ascii ''004521'') = ascii ''004521''"
    by (simp add: only_digits_def ascii_def isdigit_48_57)
  have s: "str_strip (ascii ''gc_004521'') = ascii ''gc_004521''"
    by (rule str_strip_id) (simp add: ascii_def py_isspace_def in_ranges_def space_ranges_def)
  have g: "\<not> py_isdigit 103" "\<not> py_isdigit 99" "\<not> py_isdigit 95"
    by (simp_all add: py_isdigit_def py_isdecimal_def in_ranges_def decimal_ranges_def digit_only_ranges_def)
  have l: "deep_link_code (str_strip (ascii ''gc_004521'')) = ascii ''004521''"
    unfolding s by (simp add: deep_link_code_def only_digits_def ascii_def isdigit_48_57)
  from anonymous_scan_gets_promo_only [OF a, where a = "ascii ''004521''" and rt = rt_plain
         and http = backend_no_pdf and args = "[]"]
       anonymous_scan_gets_promo_only [OF a, where a = "ascii ''gc_004521''" and rt = rt_plain
         and http = backend_no_pdf and args = "[]"]
  show ?thesis using a d l by (simp add: ascii_def)
qed

section \<open>Creation wizard: properties\<close>

lemma create_calls_append: "create_calls (xs @ ys) = create_calls xs @ create_calls ys"
  by (induction xs rule: create_calls.induct) simp_all

lemma requests_of_append: "requests_of (xs @ ys) = requests_of xs @ requests_of ys"
  by (induction xs rule: requests_of.induct) simp_all

lemma json_call_acts: "fst (json_call http rq) = [Http rq]"
  by (simp add: json_call_def)

lemma api_download_pdf_acts:
  "fst (api_download_pdf http gid code) = [Http (RequestsGet API_PDF (id_code_params gid code))]"
  by (simp add: api_download_pdf_def Let_def)

lemma btn_literals_distinct: "btn_cancel \<noteq> btn_by_email" "btn_cancel \<noteq> btn_pdf_in_chat" "btn_by_email \<noteq> btn_pdf_in_chat"
  by (simp_all add: btn_cancel_def btn_by_email_def btn_pdf_in_chat_def)

text \<open>
  C8. When the stored recipient email is empty (or absent) and the caller chooses the
  email delivery, \<^verbatim>\<open>on_action\<close> only replies with the corrective message: no request
  is sent, the user data are unchanged and the state it returns is \<open>ACTION\<close>, which the
  conversation keeps.
\<close>

theorem email_without_address_stays:
  assumes "message_text text = btn_by_email" and "get_str (ud_recipient_email ud) = []"
  shows "on_action cfg rt http text ud = ([ReplyText txt_email_missing NoMarkup], ud, Inr ACTION)
       \<and> (t \<noteq> [] \<and> message_text (Some t) = btn_by_email \<longrightarrow>
            conversation cfg rt http effective_user (ACTION, ud) (TextMessage t)
              = Some ([ReplyText txt_email_missing NoMarkup], ACTION, ud))"
proof -
  have a: "\<And>text. message_text text = btn_by_email \<Longrightarrow>
      on_action cfg rt http text ud = ([ReplyText txt_email_missing NoMarkup], ud, Inr ACTION)"
    using assms(2) btn_literals_distinct(1) by (simp add: on_action_def Let_def)
  have e: "t \<noteq> [] \<Longrightarrow> message_text (Some t) = btn_by_email \<Longrightarrow> \<not> is_entry (TextMessage t)"
  proof
    assume ne: "t \<noteq> []" and m: "message_text (Some t) = btn_by_email" and "is_entry (TextMessage t)"
    then have "t = btn_create \<or> t = btn_create @ [10]" by (simp add: is_entry_def regex_whole_def)
    then have "message_text (Some t) = btn_create"
      by (auto simp: message_text_def str_strip_def btn_create_def py_isspace_def in_ranges_def space_ranges_def)
    with m show False by (simp add: btn_create_def btn_by_email_def)
  qed
  show ?thesis using a [OF assms(1)] a [of "Some t"] e
    by (auto simp: conversation_def state_handler_def stored_def)
qed

lemma api_create_acts: "fst (api_create http payload) = [Http (RequestsPost API_CREATE payload)]"
  by (simp add: api_create_def json_call_acts)

lemma on_action_unfold:
  assumes "message_text text \<noteq> btn_cancel"
      and "\<not> (message_text text = btn_by_email \<and> get_str (ud_recipient_email ud) = [])"
  shows "on_action cfg rt http text ud =
     (let send_email = (message_text text = btn_by_email);
          payload = create_payload ud send_email;
          resp = snd (api_create http payload);
          head = [ReplyText txt_generating NoMarkup, Http (RequestsPost API_CREATE payload)]
      in if \<not> truthy rt (dict_get resp (ascii ''success''))
         then (head @ [ReplyText (txt_api_error @ py_str rt (dict_get resp (ascii ''error''))
                         @ [10] @ take 500 (py_str rt (dict_get_default resp (ascii ''raw'') (PStr []))))
                         NoMarkup], ud, Inr END)
         else (case py_int rt (py_or rt (dict_get resp (ascii ''giftcert_id'')) (PInt 0)) of
                 Inl e \<Rightarrow> (head, ud, Inl e)
               | Inr gid \<Rightarrow>
                   (head @ [Http (RequestsGet API_PDF (id_code_params gid [])),
                            (case snd (api_download_pdf http gid []) of
                               Inr pdf_bytes \<Rightarrow>
                                 ReplyDocument
                                   (ascii ''Certificate_''
                                      @ py_str rt (py_or rt (dict_get_default resp (ascii ''code'') (PStr [])) (PInt gid))
                                      @ ascii ''.pdf'')
                                   pdf_bytes
                                   (txt_caption_code @ py_str rt (dict_get_default resp (ascii ''code'') (PStr []))
                                      @ txt_caption_amount
                                      @ py_str rt (dict_get_default resp (ascii ''amount'')
                                                     (dict_get payload (ascii ''amount'')))
                                      @ txt_caption_source)
                             | Inl e \<Rightarrow> ReplyText (txt_created_no_pdf @ e) NoMarkup)]
                    @ (if SHEET_URL cfg \<noteq> []
                       then [ReplyText txt_journal
                               (InlineKeyboardMarkup [[UrlButton btn_journal_sheet (SHEET_URL cfg)]])]
                       else [])
                    @ [ReplyText txt_done ReplyKeyboardRemove], ud, Inr END)))"
  using assms
  by (auto simp: on_action_def Let_def api_create_def json_call_def api_download_pdf_def
      split: sum.splits prod.splits)

lemma on_action_create_calls:
  assumes "message_text text \<noteq> btn_cancel"
      and "\<not> (message_text text = btn_by_email \<and> get_str (ud_recipient_email ud) = [])"
  shows "create_calls (fst (on_action cfg rt http text ud))
           = [create_payload ud (message_text text = btn_by_email)]"
  unfolding on_action_unfold [OF assms]
  by (simp add: Let_def create_calls_append split: sum.splits)

lemma on_action_outcome:
  assumes "message_text text \<noteq> btn_cancel"
      and "\<not> (message_text text = btn_by_email \<and> get_str (ud_recipient_email ud) = [])"
  shows "snd (snd (on_action cfg rt http text ud)) =
     (let resp = snd (api_create http (create_payload ud (message_text text = btn_by_email)))
      in if truthy rt (dict_get resp (ascii ''success''))
         then (case py_int rt (py_or rt (dict_get resp (ascii ''giftcert_id'')) (PInt 0)) of
                 Inl e \<Rightarrow> Inl e | Inr gid \<Rightarrow> Inr END)
         else Inr END)"
  unfolding on_action_unfold [OF assms]
  by (simp add: Let_def split: sum.splits)

text \<open>
  C2, as amended. In the state \<open>ACTION\<close> the stripped text is compared with the cancel
  literal and with the email literal only. Every other text, the PDF literal or not, is
  taken as the PDF choice: exactly one creation call is sent, with \<^verbatim>\<open>send_email\<close> false,
  and the handler does not return \<open>ACTION\<close>: it returns \<open>END\<close>, or it raises when a
  successful response holds an id that \<^verbatim>\<open>int\<close> rejects.
\<close>

theorem delivery_choice_other_text_is_pdf:
  assumes "message_text text \<noteq> btn_cancel" and "message_text text \<noteq> btn_by_email"
  shows "create_calls (fst (on_action cfg rt http text ud)) = [create_payload ud False]
       \<and> snd (snd (on_action cfg rt http text ud)) \<noteq> Inr ACTION
       \<and> (snd (snd (on_action cfg rt http text ud)) = Inr END
            \<or> (\<exists>e. py_int rt (py_or rt (dict_get (snd (api_create http (create_payload ud False)))
                                          (ascii ''giftcert_id'')) (PInt 0)) = Inl e
                    \<and> snd (snd (on_action cfg rt http text ud)) = Inl e))"
proof -
  have n: "\<not> (message_text text = btn_by_email \<and> get_str (ud_recipient_email ud) = [])"
    using assms(2) by simp
  show ?thesis
    using on_action_create_calls [OF assms(1) n, of cfg rt http]
          on_action_outcome [OF assms(1) n, of cfg rt http] assms(2)
    by (auto simp: Let_def split: sum.splits if_splits)
qed

lemma message_text_hello: "message_text (Some (ascii ''hello'')) = ascii ''hello''"
  unfolding message_text_def option.case
  by (rule str_strip_id) (simp add: ascii_def py_isspace_def in_ranges_def space_ranges_def)

text \<open>
  C2 as stated fails: the text \<^verbatim>\<open>hello\<close> is none of the three literals, and yet a
  creation call is sent and the wizard ends.
\<close>

theorem delivery_choice_unknown_text_creates:
  "message_text (Some (ascii ''hello'')) \<notin> {btn_pdf_in_chat, btn_by_email, btn_cancel}
   \<and> create_calls (fst (on_action cfg_one_admin rt_plain backend_no_pdf (Some (ascii ''hello'')) ud_seventy))
        = [create_payload ud_seventy False]
   \<and> snd (snd (on_action cfg_one_admin rt_plain backend_no_pdf (Some (ascii ''hello'')) ud_seventy)) = Inr END"
proof -
  have m: "message_text (Some (ascii ''hello'')) \<noteq> btn_cancel"
          "message_text (Some (ascii ''hello'')) \<noteq> btn_by_email"
          "message_text (Some (ascii ''hello'')) \<noteq> btn_pdf_in_chat"
    unfolding message_text_hello
    by (simp_all add: ascii_def btn_cancel_def btn_by_email_def btn_pdf_in_chat_def)
  have n: "\<not> (message_text (Some (ascii ''hello'')) = btn_by_email \<and> get_str (ud_recipient_email ud_seventy) = [])"
    using m by simp
  have c: "truthy rt_plain (dict_get (snd (api_create backend_no_pdf (create_payload ud_seventy False))) (ascii ''success''))"
    by (simp add: api_create_def json_call_def backend_no_pdf_def safe_json_def dict_get_def ascii_def)
  have g: "py_int rt_plain (py_or rt_plain (dict_get (snd (api_create backend_no_pdf (create_payload ud_seventy False))) (ascii ''giftcert_id'')) (PInt 0)) = Inr 17"
    by (simp add: api_create_def json_call_def backend_no_pdf_def safe_json_def dict_get_def ascii_def py_or_def)
  show ?thesis
    using m on_action_create_calls [OF m(1) n, of cfg_one_admin rt_plain backend_no_pdf]
          on_action_outcome [OF m(1) n, of cfg_one_admin rt_plain backend_no_pdf] c g
    by (simp add: Let_def)
qed

theorem delivery_choice_other_text_witness:
  "message_text (Some btn_pdf_in_chat) \<noteq> btn_cancel \<and> message_text (Some btn_pdf_in_chat) \<noteq> btn_by_email
   \<and> create_calls (fst (on_action cfg_one_admin rt_plain backend_down (Some btn_pdf_in_chat) ud_seventy))
        = [create_payload ud_seventy False]
   \<and> snd (snd (on_action cfg_one_admin rt_plain backend_down (Some btn_pdf_in_chat) ud_seventy)) = Inr END"
proof -
  have s: "message_text (Some btn_pdf_in_chat) = btn_pdf_in_chat"
    unfolding message_text_def option.case
    by (rule str_strip_id) (simp add: btn_pdf_in_chat_def py_isspace_def in_ranges_def space_ranges_def)
  have m: "message_text (Some btn_pdf_in_chat) \<noteq> btn_cancel"
          "message_text (Some btn_pdf_in_chat) \<noteq> btn_by_email"
    unfolding s using btn_literals_distinct by simp_all
  have f: "\<not> truthy rt_plain (dict_get (snd (api_create backend_down (create_payload ud_seventy False))) (ascii ''success''))"
    by (simp add: api_create_def json_call_def backend_down_def network_error_def dict_get_def ascii_def)
  have n: "\<not> (message_text (Some btn_pdf_in_chat) = btn_by_email \<and> get_str (ud_recipient_email ud_seventy) = [])"
    using m by simp
  from delivery_choice_other_text_is_pdf [OF m, of cfg_one_admin rt_plain backend_down ud_seventy]
       on_action_outcome [OF m(1) n, of cfg_one_admin rt_plain backend_down] f m
  show ?thesis by (simp add: Let_def)
qed

lemma message_text_by_email: "message_text (Some btn_by_email) = btn_by_email"
  unfolding message_text_def option.case
  by (rule str_strip_id) (simp add: btn_by_email_def py_isspace_def in_ranges_def space_ranges_def)

theorem email_without_address_witness:
  "message_text (Some btn_by_email) = btn_by_email \<and> get_str (ud_recipient_email ud_seventy) = []
   \<and> on_action cfg_one_admin rt_plain backend_down (Some btn_by_email) ud_seventy
        = ([ReplyText txt_email_missing NoMarkup], ud_seventy, Inr ACTION)
   \<and> conversation cfg_one_admin rt_plain backend_down (Some 1) (ACTION, ud_seventy) (TextMessage btn_by_email)
        = Some ([ReplyText txt_email_missing NoMarkup], ACTION, ud_seventy)"
proof -
  have e: "get_str (ud_recipient_email ud_seventy) = []" by (simp add: get_str_def ud_seventy_def)
  have n: "btn_by_email \<noteq> []" by (simp add: btn_by_email_def)
  from email_without_address_stays [OF message_text_by_email e, of cfg_one_admin rt_plain backend_down
         btn_by_email "Some 1"]
  show ?thesis using message_text_by_email e n by simp
qed

text \<open>
  C7. When the creation call fails (the response's \<^verbatim>\<open>success\<close> is not truthy),
  \<^verbatim>\<open>on_action\<close> sends that one request, reports the \<^verbatim>\<open>error\<close> field in full followed by
  the first 500 characters of the raw body, and returns \<open>END\<close>: no retry, no second
  creation call. When the creation succeeds, the returned id converts to an integer and
  the download of the PDF fails with message \<open>e\<close>, it reports the partial success
  ("created, but could not send the PDF" and \<open>e\<close>), which is never the text of an API
  error, sends no request but the creation and the download (nothing is deleted or
  annulled), and returns \<open>END\<close> as well.
\<close>

theorem creation_failure_and_partial_success:
  assumes "message_text text \<noteq> btn_cancel"
      and "\<not> (message_text text = btn_by_email \<and> get_str (ud_recipient_email ud) = [])"
      and "payload = create_payload ud (message_text text = btn_by_email)"
      and "resp = snd (api_create http payload)"
  shows "(\<not> truthy rt (dict_get resp (ascii ''success'')) \<longrightarrow>
            on_action cfg rt http text ud =
              ([ReplyText txt_generating NoMarkup, Http (RequestsPost API_CREATE payload),
                ReplyText (txt_api_error @ py_str rt (dict_get resp (ascii ''error'')) @ [10]
                   @ take 500 (py_str rt (dict_get_default resp (ascii ''raw'') (PStr [])))) NoMarkup],
               ud, Inr END))
       \<and> (truthy rt (dict_get resp (ascii ''success''))
            \<and> py_int rt (py_or rt (dict_get resp (ascii ''giftcert_id'')) (PInt 0)) = Inr gid
            \<and> snd (api_download_pdf http gid []) = Inl e \<longrightarrow>
            on_action cfg rt http text ud =
              ([ReplyText txt_generating NoMarkup, Http (RequestsPost API_CREATE payload),
                Http (RequestsGet API_PDF (id_code_params gid [])),
                ReplyText (txt_created_no_pdf @ e) NoMarkup]
               @ (if SHEET_URL cfg \<noteq> []
                  then [ReplyText txt_journal
                          (InlineKeyboardMarkup [[UrlButton btn_journal_sheet (SHEET_URL cfg)]])]
                  else [])
               @ [ReplyText txt_done ReplyKeyboardRemove],
               ud, Inr END))
       \<and> txt_created_no_pdf @ e \<noteq> txt_api_error @ x"
proof -
  have d: "txt_created_no_pdf @ e \<noteq> txt_api_error @ x"
    by (simp add: txt_created_no_pdf_def txt_api_error_def)
  show ?thesis
    unfolding on_action_unfold [OF assms(1,2)] assms(3,4)
    using d by (simp add: Let_def)
qed

theorem creation_failure_and_partial_success_witness:
  "on_action cfg_one_admin rt_plain backend_down (Some btn_pdf_in_chat) ud_seventy =
     ([ReplyText txt_generating NoMarkup,
       Http (RequestsPost API_CREATE (create_payload ud_seventy False)),
       ReplyText (txt_api_error @ ascii ''Network error: down'' @ [10]) NoMarkup],
      ud_seventy, Inr END)
   \<and> on_action cfg_one_admin rt_plain backend_no_pdf (Some btn_pdf_in_chat) ud_seventy =
     ([ReplyText txt_generating NoMarkup,
       Http (RequestsPost API_CREATE (create_payload ud_seventy False)),
       Http (RequestsGet API_PDF [(ascii ''giftcert_id'', PInt 17)]),
       ReplyText (txt_created_no_pdf @ ascii ''PDF download failed: 500 no pdf'') NoMarkup,
       ReplyText txt_done ReplyKeyboardRemove],
      ud_seventy, Inr END)"
proof -
  have s: "message_text (Some btn_pdf_in_chat) = btn_pdf_in_chat"
    unfolding message_text_def option.case
    by (rule str_strip_id) (simp add: btn_pdf_in_chat_def py_isspace_def in_ranges_def space_ranges_def)
  have m: "message_text (Some btn_pdf_in_chat) \<noteq> btn_cancel"
    unfolding s using btn_literals_distinct by simp
  have n: "\<not> (message_text (Some btn_pdf_in_chat) = btn_by_email \<and> get_str (ud_recipient_email ud_seventy) = [])"
    unfolding s using btn_literals_distinct by simp
  have b: "(message_text (Some btn_pdf_in_chat) = btn_by_email) = False"
    unfolding s using btn_literals_distinct by simp
  have d: "nat_digits 500 = [53, 48, 48]"
    by (simp add: nat_digits.simps [of 500] nat_digits.simps [of 50] nat_digits.simps [of 5])
  from creation_failure_and_partial_success [OF m n refl refl, where rt = rt_plain
         and http = backend_down and gid = 0 and e = "[]" and cfg = cfg_one_admin and x = "[]"]
       creation_failure_and_partial_success [OF m n refl refl, where rt = rt_plain
         and http = backend_no_pdf and gid = 17 and e = "ascii ''PDF download failed: 500 no pdf''"
         and cfg = cfg_one_admin and x = "[]"]
  show ?thesis unfolding b
    by (simp add: api_create_def json_call_def backend_down_def backend_no_pdf_def network_error_def
        safe_json_def dict_get_def dict_get_default_def ascii_def py_or_def py_str_def
        api_download_pdf_def id_code_params_def cfg_one_admin_def str_of_int_def d)
qed

lemma message_text_trimmed:
  "t = [] \<or> (\<not> py_isspace (hd t) \<and> \<not> py_isspace (last t)) \<Longrightarrow> message_text (Some t) = t"
  unfolding message_text_def option.case by (rule str_strip_id)

text \<open>
  C3, as amended. Each optional step (recipient name, donor first name, donor last name,
  recipient email) strips the whitespace around the input; when what is left is
  \<^verbatim>\<open>-\<close> it stores the empty string, otherwise it stores what is left, so an input
  without whitespace at its ends (and other than \<^verbatim>\<open>-\<close>) is stored unchanged. The step
  moves to the next state whatever the input is.
\<close>

theorem optional_steps_store_stripped:
  assumes "s = message_text text" and "v = (if s = ascii ''-'' then [] else s)"
  shows "on_recipient_name text ud
           = ([ReplyText txt_ask_donor_first NoMarkup], ud\<lparr>ud_recipient_name := Some v\<rparr>, Inr DONOR_FIRST)
       \<and> on_donor_first text ud
           = ([ReplyText txt_ask_donor_last NoMarkup], ud\<lparr>ud_firstname := Some v\<rparr>, Inr DONOR_LAST)
       \<and> on_donor_last text ud
           = ([ReplyText txt_ask_recipient_email NoMarkup], ud\<lparr>ud_lastname := Some v\<rparr>, Inr RECIPIENT_EMAIL)
       \<and> snd (on_recipient_email text ud) = (ud\<lparr>ud_recipient_email := Some v\<rparr>, Inr ACTION)
       \<and> ((t = [] \<or> (\<not> py_isspace (hd t) \<and> \<not> py_isspace (last t))) \<and> text = Some t \<and> t \<noteq> ascii ''-''
            \<longrightarrow> v = t)"
  using assms message_text_trimmed [of t]
  by (auto simp: on_recipient_name_def on_donor_first_def on_donor_last_def on_recipient_email_def Let_def)

lemma message_text_space_a: "message_text (Some (ascii '' a'')) = ascii ''a''"
  by (simp add: message_text_def str_strip_def ascii_def py_isspace_def in_ranges_def space_ranges_def)

text \<open>
  C3 as stated fails: the input \<^verbatim>\<open>" a"\<close> is not \<^verbatim>\<open>-\<close>, and what is stored is
  \<^verbatim>\<open>"a"\<close>, not the input.
\<close>

theorem optional_step_strips_input:
  "ascii '' a'' \<noteq> ascii ''-''
   \<and> ud_recipient_name (fst (snd (on_recipient_name (Some (ascii '' a'')) user_data_clear :: unit stepped)))
       = Some (ascii ''a'')
   \<and> Some (ascii ''a'') \<noteq> Some (ascii '' a'')"
  by (simp add: on_recipient_name_def Let_def message_text_space_a) (simp add: ascii_def)

theorem optional_steps_witness:
  "message_text (Some (ascii ''Anna'')) = ascii ''Anna''
   \<and> (on_recipient_name (Some (ascii ''Anna'')) ud_seventy :: unit stepped)
        = ([ReplyText txt_ask_donor_first NoMarkup], ud_seventy\<lparr>ud_recipient_name := Some (ascii ''Anna'')\<rparr>, Inr DONOR_FIRST)
   \<and> (on_donor_first (Some (ascii ''-'')) ud_seventy :: unit stepped)
        = ([ReplyText txt_ask_donor_last NoMarkup], ud_seventy\<lparr>ud_firstname := Some []\<rparr>, Inr DONOR_LAST)"
proof -
  have a: "message_text (Some (ascii ''Anna'')) = ascii ''Anna''"
    by (rule message_text_trimmed) (simp add: ascii_def py_isspace_def in_ranges_def space_ranges_def)
  have b: "message_text (Some (ascii ''-'')) = ascii ''-''"
    by (rule message_text_trimmed) (simp add: ascii_def py_isspace_def in_ranges_def space_ranges_def)
  have c: "ascii ''Anna'' \<noteq> ascii ''-''" by (simp add: ascii_def)
  from optional_steps_store_stripped [OF a [symmetric] refl, where ud = ud_seventy and t = "ascii ''Anna''", where ?'a = unit and ?'b = unit and ?'c = unit and ?'d = unit]
       optional_steps_store_stripped [OF b [symmetric] refl, where ud = ud_seventy and t = "[]", where ?'a = unit and ?'b = unit and ?'c = unit and ?'d = unit]
  show ?thesis using a c by simp
qed

lemma decimal_string_isdigit: "s \<noteq> [] \<Longrightarrow> list_all py_isdecimal s \<Longrightarrow> str_isdigit s"
  by (auto simp: str_isdigit_def list_all_iff decimal_isdigit)

text \<open>
  C4, as amended. Let \<open>s\<close> be the input with the whitespace around it stripped. When
  \<open>s\<close> is a string of decimal digits that is not empty, \<^verbatim>\<open>int(s)\<close> is its value; when that
  value is positive the step stores it as the amount and moves to \<open>RECIPIENT_NAME\<close>. When
  \<open>s\<close> is empty, or holds a character that is not a digit, or is a string of decimal
  digits of value 0, the step replies with the hint and stays in \<open>AMOUNT\<close> with the user
  data unchanged. (Nothing is said about a string of digit characters that are not all
  decimal.)
\<close>

theorem amount_step_on_stripped_input:
  assumes "s = message_text text"
  shows "(s \<noteq> [] \<and> list_all py_isdecimal s \<longrightarrow> py_int_str s = Inr (int (digits_value s)))
       \<and> (s \<noteq> [] \<and> list_all py_isdecimal s \<and> 0 < digits_value s \<longrightarrow>
            on_amount text ud = ([ReplyText txt_ask_recipient_name NoMarkup],
                                 ud\<lparr>ud_amount := Some (int (digits_value s))\<rparr>, Inr RECIPIENT_NAME))
       \<and> (s = [] \<or> (\<exists>c\<in>set s. \<not> py_isdigit c) \<or> (list_all py_isdecimal s \<and> digits_value s = 0) \<longrightarrow>
            on_amount text ud = ([ReplyText txt_need_number NoMarkup], ud, Inr AMOUNT))"
proof (intro conjI impI)
  assume "s \<noteq> [] \<and> list_all py_isdecimal s"
  then show "py_int_str s = Inr (int (digits_value s))" by (simp add: decimal_string_int)
next
  assume a: "s \<noteq> [] \<and> list_all py_isdecimal s \<and> 0 < digits_value s"
  then have "str_isdigit s" "py_int_str s = Inr (int (digits_value s))"
    by (simp_all add: decimal_string_isdigit decimal_string_int)
  with a assms show "on_amount text ud = ([ReplyText txt_ask_recipient_name NoMarkup],
      ud\<lparr>ud_amount := Some (int (digits_value s))\<rparr>, Inr RECIPIENT_NAME)"
    by (simp add: on_amount_def Let_def)
next
  assume a: "s = [] \<or> (\<exists>c\<in>set s. \<not> py_isdigit c) \<or> (list_all py_isdecimal s \<and> digits_value s = 0)"
  show "on_amount text ud = ([ReplyText txt_need_number NoMarkup], ud, Inr AMOUNT)"
  proof (cases "str_isdigit s")
    case False
    with assms show ?thesis by (simp add: on_amount_def Let_def)
  next
    case True
    then have ne: "s \<noteq> []" and "\<forall>c\<in>set s. py_isdigit c" by (simp_all add: str_isdigit_def list_all_iff)
    with a have d: "list_all py_isdecimal s" and z: "digits_value s = 0" by auto
    from ne d have "py_int_str s = Inr (int (digits_value s))" by (rule decimal_string_int)
    with True z assms show ?thesis by (simp add: on_amount_def Let_def)
  qed
qed

lemma message_text_space_70: "message_text (Some (ascii '' 70'')) = ascii ''70''"
  by (simp add: message_text_def str_strip_def ascii_def py_isspace_def in_ranges_def space_ranges_def)

lemma digits_value_70: "digits_value (ascii ''70'') = 70"
  by (simp add: digits_value_def ascii_def ascii_digit_value)

text \<open>
  C4 as stated fails: the input \<^verbatim>\<open>" 70"\<close> is not a string of decimal digits, and yet the
  step stores 70 and moves on.
\<close>

theorem amount_step_accepts_padded_input:
  "\<not> list_all (\<lambda>c. 48 \<le> c \<and> c \<le> 57) (ascii '' 70'')
   \<and> (on_amount (Some (ascii '' 70'')) user_data_clear :: unit stepped)
       = ([ReplyText txt_ask_recipient_name NoMarkup], user_data_clear\<lparr>ud_amount := Some 70\<rparr>, Inr RECIPIENT_NAME)"
proof -
  have d: "list_all py_isdecimal (ascii ''70'')" by (simp add: ascii_def ascii_digit_decimal)
  have n: "ascii ''70'' \<noteq> []" by (simp add: ascii_def)
  have "str_isdigit (ascii ''70'')" by (rule decimal_string_isdigit [OF n d])
  moreover have "py_int_str (ascii ''70'') = Inr 70"
    using decimal_string_int [OF n d] digits_value_70 by simp
  ultimately show ?thesis
    by (simp add: on_amount_def Let_def message_text_space_70) (simp add: ascii_def)
qed

theorem amount_step_witness:
  "(on_amount (Some (ascii '' 70'')) user_data_clear :: unit stepped)
       = ([ReplyText txt_ask_recipient_name NoMarkup], user_data_clear\<lparr>ud_amount := Some 70\<rparr>, Inr RECIPIENT_NAME)
   \<and> (on_amount (Some (ascii ''abc'')) ud_seventy :: unit stepped)
       = ([ReplyText txt_need_number NoMarkup], ud_seventy, Inr AMOUNT)
   \<and> (on_amount (Some (ascii ''0'')) ud_seventy :: unit stepped)
       = ([ReplyText txt_need_number NoMarkup], ud_seventy, Inr AMOUNT)
   \<and> (on_amount None ud_seventy :: unit stepped)
       = ([ReplyText txt_need_number NoMarkup], ud_seventy, Inr AMOUNT)"
proof -
  have d: "list_all py_isdecimal (ascii ''70'')" "list_all py_isdecimal (ascii ''0'')"
    by (simp_all add: ascii_def ascii_digit_decimal)
  have m: "message_text (Some (ascii ''abc'')) = ascii ''abc''" "message_text (Some (ascii ''0'')) = ascii ''0''"
    by (rule message_text_trimmed, simp add: ascii_def py_isspace_def in_ranges_def space_ranges_def)+
  have e: "message_text None = []" by (simp add: message_text_def str_strip_def)
  have z: "digits_value (ascii ''0'') = 0" by (simp add: digits_value_def ascii_def ascii_digit_value)
  have x: "\<not> py_isdigit 97"
    by (simp add: py_isdigit_def py_isdecimal_def in_ranges_def decimal_ranges_def digit_only_ranges_def)
  have p: "ascii ''70'' \<noteq> [] \<and> list_all py_isdecimal (ascii ''70'') \<and> 0 < digits_value (ascii ''70'')"
    using d digits_value_70 by (simp add: ascii_def)
  have w1: "(on_amount (Some (ascii '' 70'')) user_data_clear :: unit stepped)
       = ([ReplyText txt_ask_recipient_name NoMarkup], user_data_clear\<lparr>ud_amount := Some 70\<rparr>, Inr RECIPIENT_NAME)"
    using amount_step_on_stripped_input [OF message_text_space_70 [symmetric], of user_data_clear] p
    unfolding digits_value_70 by (metis of_nat_numeral)
  have q: "\<exists>c\<in>set (ascii ''abc''). \<not> py_isdigit c" using x by (simp add: ascii_def)
  have w2: "(on_amount (Some (ascii ''abc'')) ud_seventy :: unit stepped)
       = ([ReplyText txt_need_number NoMarkup], ud_seventy, Inr AMOUNT)"
    using amount_step_on_stripped_input [OF m(1) [symmetric], of ud_seventy] q by blast
  have w3: "(on_amount (Some (ascii ''0'')) ud_seventy :: unit stepped)
       = ([ReplyText txt_need_number NoMarkup], ud_seventy, Inr AMOUNT)"
    using amount_step_on_stripped_input [OF m(2) [symmetric], of ud_seventy] d(2) z by blast
  have w4: "(on_amount None ud_seventy :: unit stepped)
       = ([ReplyText txt_need_number NoMarkup], ud_seventy, Inr AMOUNT)"
    using amount_step_on_stripped_input [OF e [symmetric], of ud_seventy] by blast
  show ?thesis using w1 w2 w3 w4 by simp
qed

text \<open>
  Outside the amended statement: a superscript two is a digit for \<^verbatim>\<open>str.isdigit\<close>, but
  \<^verbatim>\<open>int\<close> rejects it, so on this input the handler raises \<^verbatim>\<open>ValueError\<close> and replies
  nothing; the conversation stays in \<open>AMOUNT\<close>.
\<close>

lemma amount_step_superscript_raises:
  "(on_amount (Some [178]) ud :: 'f stepped) = ([], ud, Inl ValueError)"
proof -
  have s: "message_text (Some [178]) = [178]"
    by (rule message_text_trimmed) (simp add: py_isspace_def in_ranges_def space_ranges_def)
  have d: "str_isdigit [178]"
    by (simp add: str_isdigit_def py_isdigit_def in_ranges_def digit_only_ranges_def)
  have i: "py_int_str [178] = Inl ValueError"
    by (simp add: py_int_str_def int_strip_def int_isspace_def py_isspace_def in_ranges_def
        space_ranges_def valid_digits_def py_isdecimal_def decimal_ranges_def)
  show ?thesis by (simp add: on_amount_def Let_def s d i)
qed

section \<open>Action dispatcher: properties\<close>

lemma split_once_verb: "58 \<notin> set verb \<Longrightarrow> split_once (verb @ 58 # rest) = Some (verb, rest)"
  by (induction verb) (auto simp: split_once_def)

lemma reply_card_requests: "requests_of (fst (reply_card rt cert)) = []"
  by (cases cert) (simp_all add: reply_card_def split: sum.splits)

lemma reply_card_requests_eq: "reply_card rt cert = (acts, err) \<Longrightarrow> requests_of acts = []"
  using reply_card_requests [of rt cert] by simp

lemma fetch_cert_requests:
  "fetch_cert_by_id rt http gid = (tr, cert, msg) \<Longrightarrow>
     requests_of tr = [RequestsGet API_GET (id_code_params gid [])]"
  by (auto simp: fetch_cert_by_id_def api_get_def json_call_def Let_def split: if_splits)

lemma api_post_acts: "fst (api_post http url payload) = [Http (RequestsPost url payload)]"
  by (simp add: api_post_def json_call_acts)

lemma verbs_distinct:
  "ascii ''del'' \<noteq> ascii ''del_yes''" "ascii ''del_no'' \<noteq> ascii ''del_yes''"
  "ascii ''del'' \<noteq> ascii ''del_no''"
  by (simp_all add: ascii_def)

lemma dispatch_del:
  "dispatch rt http (ascii ''del'') gid =
     ([Answer None False,
       ReplyText (txt_delete_question @ str_of_int gid @ txt_code_released)
         (InlineKeyboardMarkup
            [[CallbackButton btn_yes_delete (ascii ''del_yes:'' @ str_of_int gid),
              CallbackButton btn_undo (ascii ''del_no:'' @ str_of_int gid)]])], None)"
  by (simp add: dispatch_def)

lemma dispatch_del_no:
  "dispatch rt http (ascii ''del_no'') gid = ([Answer (Some txt_not_deleting) False], None)"
  using verbs_distinct by (simp add: dispatch_def)

lemma dispatch_del_yes:
  "requests_of (fst (dispatch rt http (ascii ''del_yes'') gid))
     = [RequestsPost API_DELETE [(ascii ''giftcert_id'', PInt gid), (ascii ''confirm'', PBool True)]]"
  using verbs_distinct
  by (simp add: dispatch_def api_post_def json_call_def requests_of_append split: prod.splits)

lemma dispatch_delete_only_del_yes:
  assumes "RequestsPost API_DELETE p \<in> set (requests_of (fst (dispatch rt http action gid)))"
  shows "action = ascii ''del_yes''
       \<and> p = [(ascii ''giftcert_id'', PInt gid), (ascii ''confirm'', PBool True)]"
proof -
  consider (a) "action = ascii ''del''" | (b) "action = ascii ''del_no''" | (c) "action = ascii ''del_yes''"
    | (d) "action = ascii ''pdf''" | (e) "action = ascii ''email''" | (f) "action = ascii ''use''"
    | (g) "action = ascii ''annul''"
    | (h) "action \<notin> {ascii ''del'', ascii ''del_no'', ascii ''del_yes'', ascii ''pdf'', ascii ''email'', ascii ''use'', ascii ''annul''}"
    by blast
  then show ?thesis
  proof cases
    case a with assms show ?thesis by (simp add: dispatch_del)
  next
    case b with assms show ?thesis by (simp add: dispatch_del_no)
  next
    case c with assms show ?thesis by (simp add: dispatch_del_yes)
  next
    case d
    then have "requests_of (fst (dispatch rt http action gid)) = [RequestsGet API_PDF (id_code_params gid [])]"
      by (simp add: dispatch_def ascii_def api_download_pdf_def Let_def requests_of_append
          split: prod.splits sum.splits http_result.splits)
    with assms show ?thesis by simp
  next
    case e
    then have "requests_of (fst (dispatch rt http action gid))
                 = [RequestsPost API_RESEND [(ascii ''giftcert_id'', PInt gid)]]"
      by (simp add: dispatch_def ascii_def api_post_def json_call_def requests_of_append split: prod.splits)
    with assms show ?thesis by simp
  next
    case f
    then have "set (requests_of (fst (dispatch rt http action gid)))
                 \<subseteq> {RequestsPost API_USE ((ascii ''note'', PStr txt_used_note) # id_code_params gid []),
                     RequestsGet API_GET (id_code_params gid [])}"
      by (auto simp: dispatch_def ascii_def api_use_def json_call_def requests_of_append Let_def
          dest: fetch_cert_requests reply_card_requests_eq split: prod.splits if_splits)
    with assms show ?thesis by auto
  next
    case g
    then have "set (requests_of (fst (dispatch rt http action gid)))
                 \<subseteq> {RequestsPost API_ANNUL [(ascii ''giftcert_id'', PInt gid), (ascii ''reason'', PStr txt_annul_reason)],
                     RequestsGet API_GET (id_code_params gid [])}"
      by (auto simp: dispatch_def ascii_def api_post_def json_call_def requests_of_append Let_def
          dest: fetch_cert_requests reply_card_requests_eq split: prod.splits if_splits)
    with assms show ?thesis by auto
  next
    case h
    then have "dispatch rt http action gid = ([Answer (Some txt_unknown_action) True], None)"
      by (simp add: dispatch_def)
    with assms show ?thesis by simp
  qed
qed

lemma on_callback_token:
  assumes "is_admin (TG_ADMIN_IDS cfg) effective_user" and "58 \<notin> set verb"
  shows "on_callback cfg rt http effective_user (Some (Some (verb @ 58 # str_of_int gid)))
           = dispatch rt http verb gid"
  using assms by (simp add: on_callback_def split_once_verb py_int_str_of_int)

lemma on_callback_delete_only_del_yes:
  assumes "RequestsPost API_DELETE p \<in> set (requests_of (fst (on_callback cfg rt http caller cq)))"
  shows "is_admin (TG_ADMIN_IDS cfg) caller
       \<and> (\<exists>d gid_s g. cq = Some (Some d) \<and> split_once d = Some (ascii ''del_yes'', gid_s)
              \<and> py_int_str gid_s = Inr g
              \<and> p = [(ascii ''giftcert_id'', PInt g), (ascii ''confirm'', PBool True)])"
proof -
  have adm: "is_admin (TG_ADMIN_IDS cfg) caller"
    using assms by (auto simp: on_callback_def split: option.splits if_splits)
  from assms adm obtain d where d: "cq = Some (Some d)" "d \<noteq> []"
    by (auto simp: on_callback_def split: option.splits if_splits)
  from assms adm d obtain action gid_s where s: "split_once d = Some (action, gid_s)"
    by (auto simp: on_callback_def split: option.splits)
  from assms adm d s obtain g where g: "py_int_str gid_s = Inr g"
    by (auto simp: on_callback_def split: sum.splits)
  from assms adm d s g have "RequestsPost API_DELETE p \<in> set (requests_of (fst (dispatch rt http action g)))"
    by (simp add: on_callback_def)
  from dispatch_delete_only_del_yes [OF this] adm d s g show ?thesis by simp
qed

text \<open>
  C6. For an admin and every certificate id: the token \<^verbatim>\<open>del:id\<close> sends no request, it
  answers the query and asks for confirmation with two buttons that carry the same id
  in the tokens \<^verbatim>\<open>del_yes:id\<close> and \<^verbatim>\<open>del_no:id\<close>; \<^verbatim>\<open>del_no:id\<close> only answers the query;
  \<^verbatim>\<open>del_yes:id\<close> sends exactly one request, the delete call for that id with
  \<^verbatim>\<open>confirm\<close> true. And whoever the caller and whatever the callback query are, a
  delete call among the requests means that the caller is an admin and the verb of the
  token is \<^verbatim>\<open>del_yes\<close>.
\<close>

theorem delete_needs_confirmation:
  assumes "is_admin (TG_ADMIN_IDS cfg) effective_user"
  shows "on_callback cfg rt http effective_user (Some (Some (ascii ''del:'' @ str_of_int gid)))
           = ([Answer None False,
               ReplyText (txt_delete_question @ str_of_int gid @ txt_code_released)
                 (InlineKeyboardMarkup
                    [[CallbackButton btn_yes_delete (ascii ''del_yes:'' @ str_of_int gid),
                      CallbackButton btn_undo (ascii ''del_no:'' @ str_of_int gid)]])], None)
       \<and> on_callback cfg rt http effective_user (Some (Some (ascii ''del_no:'' @ str_of_int gid)))
           = ([Answer (Some txt_not_deleting) False], None)
       \<and> requests_of (fst (on_callback cfg rt http effective_user
                               (Some (Some (ascii ''del_yes:'' @ str_of_int gid)))))
           = [RequestsPost API_DELETE [(ascii ''giftcert_id'', PInt gid), (ascii ''confirm'', PBool True)]]
       \<and> (RequestsPost API_DELETE p \<in> set (requests_of (fst (on_callback cfg rt http caller cq))) \<longrightarrow>
            is_admin (TG_ADMIN_IDS cfg) caller
            \<and> (\<exists>d gid_s g. cq = Some (Some d) \<and> split_once d = Some (ascii ''del_yes'', gid_s)
                  \<and> py_int_str gid_s = Inr g
                  \<and> p = [(ascii ''giftcert_id'', PInt g), (ascii ''confirm'', PBool True)]))"
proof -
  have t: "ascii ''del:'' @ str_of_int gid = ascii ''del'' @ 58 # str_of_int gid"
          "ascii ''del_no:'' @ str_of_int gid = ascii ''del_no'' @ 58 # str_of_int gid"
          "ascii ''del_yes:'' @ str_of_int gid = ascii ''del_yes'' @ 58 # str_of_int gid"
    by (simp_all add: ascii_def)
  have c: "58 \<notin> set (ascii ''del'')" "58 \<notin> set (ascii ''del_no'')" "58 \<notin> set (ascii ''del_yes'')"
    by (simp_all add: ascii_def)
  have u: "ascii ''del_yes:'' = ascii ''del_yes'' @ [58]" "ascii ''del_no:'' = ascii ''del_no'' @ [58]"
    by (simp_all add: ascii_def)
  show ?thesis
    unfolding t(1) t(2) t(3) on_callback_token [OF assms c(1)] on_callback_token [OF assms c(2)]
      on_callback_token [OF assms c(3)]
    using on_callback_delete_only_del_yes [of p cfg rt http caller cq]
    by (simp add: dispatch_del dispatch_del_no dispatch_del_yes u)
qed

theorem delete_needs_confirmation_witness:
  "is_admin (TG_ADMIN_IDS cfg_one_admin) (Some 1)
   \<and> on_callback cfg_one_admin rt_plain backend_down (Some 1) (Some (Some (ascii ''del:17'')))
        = ([Answer None False,
            ReplyText (txt_delete_question @ ascii ''17'' @ txt_code_released)
              (InlineKeyboardMarkup
                 [[CallbackButton btn_yes_delete (ascii ''del_yes:17''),
                   CallbackButton btn_undo (ascii ''del_no:17'')]])], None)
   \<and> on_callback cfg_one_admin rt_plain backend_down (Some 1) (Some (Some (ascii ''del_no:17'')))
        = ([Answer (Some txt_not_deleting) False], None)
   \<and> requests_of (fst (on_callback cfg_one_admin rt_plain backend_down (Some 1) (Some (Some (ascii ''del_yes:17'')))))
        = [RequestsPost API_DELETE [(ascii ''giftcert_id'', PInt 17), (ascii ''confirm'', PBool True)]]"
proof -
  have a: "is_admin (TG_ADMIN_IDS cfg_one_admin) (Some 1)"
    by (simp add: is_admin_def cfg_one_admin_def)
  have d: "str_of_int 17 = ascii ''17''"
    by (simp add: str_of_int_def nat_digits.simps [of 17] nat_digits.simps [of 1]
        nat_digits.simps [of "Suc 0"] ascii_def)
  from delete_needs_confirmation [OF a, where rt = rt_plain and http = backend_down and gid = 17
      and p = "[]" and caller = None and cq = None]
  show ?thesis using a unfolding d by (simp add: ascii_def)
qed

end
